theory Spec2Isabelle
  imports Main
begin

section \<open>Shared values\<close>

text \<open>
  Status of a probe result (\<open>HealthCheckResult["status"]\<close> in the agent's
  \<open>types/index.ts\<close>).
\<close>

datatype HealthStatus = HEALTHY | UNHEALTHY

text \<open>Decimal rendering of a number inside a template literal.\<close>

definition digit_char :: "nat \<Rightarrow> char" where
  "digit_char d =
     (if d = 0 then CHR ''0'' else if d = 1 then CHR ''1'' else if d = 2 then CHR ''2''
      else if d = 3 then CHR ''3'' else if d = 4 then CHR ''4'' else if d = 5 then CHR ''5''
      else if d = 6 then CHR ''6'' else if d = 7 then CHR ''7'' else if d = 8 then CHR ''8''
      else CHR ''9'')"

function show_nat :: "nat \<Rightarrow> string" where
  "show_nat n = (if n < 10 then [digit_char n] else show_nat (n div 10) @ [digit_char (n mod 10)])"
  by pat_completeness auto
termination
  by (relation "measure (\<lambda>n. n)") auto

declare show_nat.simps [simp del]

section \<open>Probe: \<open>BeaconNodeMonitor\<close>\<close>

text \<open>
  What one \<open>axios.get\<close> can do: the server answers with a status code and a status
  text, or the transport fails (timeout, refused connection) with an error message.
\<close>

datatype http_outcome = Reply nat string | NoReply string

text \<open>
  The promise returned by \<open>axios.get\<close>: it resolves when \<open>validateStatus\<close> accepts the
  status and rejects otherwise, with the library's message for a refused status.
\<close>

datatype axios_result = Resolved nat string | Rejected string

definition axios_get :: "(nat \<Rightarrow> bool) \<Rightarrow> http_outcome \<Rightarrow> axios_result" where
  "axios_get validateStatus out =
     (case out of
        Reply status statusText \<Rightarrow>
          if validateStatus status then Resolved status statusText
          else Rejected (''Request failed with status code '' @ show_nat status)
      | NoReply msg \<Rightarrow> Rejected msg)"

text \<open>
  The optional request to \<open>/eth/v1/beacon/blocks/head\<close>: it throws, or answers without
  \<open>data.data\<close>, or answers with a slot that \<open>parseInt\<close> reads.
\<close>

datatype block_outcome = BlockThrows | BlockNoData | BlockSlot int

text \<open>What the environment does at one attempt of the retry loop.\<close>

record attempt_env =
  health :: http_outcome
  block :: block_outcome
  elapsed :: int

record BeaconNodeStatus =
  bs_isHealthy :: bool
  bs_responseTime :: int
  bs_blockHeight :: "int option"
  bs_timestamp :: int
  bs_error :: "string option"

record HealthCheckResult =
  hc_validatorId :: string
  hc_status :: HealthStatus
  hc_responseTime :: int
  hc_timestamp :: int
  hc_error :: "string option"
  hc_beaconStatus :: "BeaconNodeStatus option"

record probe_config =
  pc_validatorId :: string
  healthCheckTimeout :: int
  healthCheckRetries :: int

text \<open>The requests and pauses a probe performs, in order.\<close>

datatype probe_effect = HealthGet int | BlockGet int | Delay int

text \<open>
  The \<open>for\<close> loop of \<open>checkBeaconNodeHealth\<close>, from \<open>attempt\<close> on. \<open>lastError\<close> is the
  message of the \<open>Error\<close> held in the variable of that name, \<open>tr\<close> the effects so far and
  \<open>now\<close> the wall clock. The pause of one second is in the \<open>catch\<close> block only.
\<close>

function checkLoop ::
  "probe_config \<Rightarrow> (int \<Rightarrow> attempt_env) \<Rightarrow> int \<Rightarrow> int \<Rightarrow> string option \<Rightarrow> probe_effect list
     \<Rightarrow> BeaconNodeStatus \<times> probe_effect list" where
  "checkLoop cfg env now attempt lastError tr =
     (if attempt \<le> healthCheckRetries cfg then
        (case axios_get (\<lambda>status. status < 500) (health (env attempt)) of
           Resolved status statusText \<Rightarrow>
             if status = 200 then
               (\<lparr> bs_isHealthy = True,
                   bs_responseTime = elapsed (env attempt),
                   bs_blockHeight =
                     (case block (env attempt) of
                        BlockSlot n \<Rightarrow> Some n | BlockNoData \<Rightarrow> None | BlockThrows \<Rightarrow> None),
                   bs_timestamp = now,
                   bs_error = None \<rparr>,
                tr @ [HealthGet attempt, BlockGet attempt])
             else
               checkLoop cfg env now (attempt + 1)
                 (Some (''HTTP '' @ show_nat status @ '': '' @ statusText))
                 (tr @ [HealthGet attempt])
         | Rejected msg \<Rightarrow>
             checkLoop cfg env now (attempt + 1) (Some msg)
               (tr @ [HealthGet attempt]
                   @ (if attempt < healthCheckRetries cfg then [Delay 1000] else [])))
      else
        (\<lparr> bs_isHealthy = False,
            bs_responseTime = healthCheckTimeout cfg,
            bs_blockHeight = None,
            bs_timestamp = now,
            bs_error =
              Some (case lastError of
                      None \<Rightarrow> ''Health check failed after all retries''
                    | Some m \<Rightarrow> if m = [] then ''Health check failed after all retries'' else m) \<rparr>,
         tr))"
  by pat_completeness auto
termination
  by (relation "measure (\<lambda>(cfg, env, now, attempt, lastError, tr).
        nat (healthCheckRetries cfg + 1 - attempt))") auto

declare checkLoop.simps [simp del]

definition checkBeaconNodeHealth ::
  "probe_config \<Rightarrow> (int \<Rightarrow> attempt_env) \<Rightarrow> int \<Rightarrow> BeaconNodeStatus \<times> probe_effect list" where
  "checkBeaconNodeHealth cfg env now = checkLoop cfg env now 1 None []"

text \<open>
  \<open>performHealthCheck\<close>: the \<open>try\<close> branch. \<open>checkBeaconNodeHealth\<close> has no \<open>throw\<close> of
  its own, so the \<open>catch\<close> branch is not reached from it. \<open>cycleTime\<close> is the time the
  cycle took, measured from its start.
\<close>

definition performHealthCheck ::
  "probe_config \<Rightarrow> (int \<Rightarrow> attempt_env) \<Rightarrow> int \<Rightarrow> int \<Rightarrow> HealthCheckResult \<times> probe_effect list" where
  "performHealthCheck cfg env now cycleTime =
     (let (response, tr) = checkBeaconNodeHealth cfg env now
      in (\<lparr> hc_validatorId = pc_validatorId cfg,
             hc_status = (if bs_isHealthy response then HEALTHY else UNHEALTHY),
             hc_responseTime = cycleTime,
             hc_timestamp = now,
             hc_error = None,
             hc_beaconStatus = Some response \<rparr>, tr))"

text \<open>
  Vocabulary for the properties of the retry loop: an attempt fails unless the answer is
  status 200; it throws (and so reaches the \<open>catch\<close> block) when \<open>axios\<close> rejects;
  \<open>attemptError\<close> is the message the loop stores in \<open>lastError\<close> after it;
  \<open>finalMessage\<close> reads \<open>lastError?.message || "Health check failed after all retries"\<close>;
  \<open>failTrace\<close> lists the effects of one failed attempt.
\<close>

definition attemptFails :: "attempt_env \<Rightarrow> bool" where
  "attemptFails e = (case health e of Reply st t \<Rightarrow> st \<noteq> 200 | NoReply m \<Rightarrow> True)"

definition attemptThrows :: "attempt_env \<Rightarrow> bool" where
  "attemptThrows e = (case health e of Reply st t \<Rightarrow> 500 \<le> st | NoReply m \<Rightarrow> True)"

definition attemptError :: "attempt_env \<Rightarrow> string" where
  "attemptError e =
     (case health e of
        Reply st t \<Rightarrow> if st < 500 then ''HTTP '' @ show_nat st @ '': '' @ t
                      else ''Request failed with status code '' @ show_nat st
      | NoReply m \<Rightarrow> m)"

definition finalMessage :: "string option \<Rightarrow> string" where
  "finalMessage lastError =
     (case lastError of None \<Rightarrow> ''Health check failed after all retries''
      | Some m \<Rightarrow> if m = [] then ''Health check failed after all retries'' else m)"

definition failTrace :: "probe_config \<Rightarrow> (int \<Rightarrow> attempt_env) \<Rightarrow> int \<Rightarrow> probe_effect list" where
  "failTrace cfg env i =
     HealthGet i # (if attemptThrows (env i) \<and> i < healthCheckRetries cfg then [Delay 1000] else [])"

subsection \<open>Sample probe environments\<close>

definition cfg3 :: probe_config where
  "cfg3 = \<lparr> pc_validatorId = ''v1'', healthCheckTimeout = 10000, healthCheckRetries = 3 \<rparr>"

definition envRecover :: "int \<Rightarrow> attempt_env" where
  "envRecover i =
     (if i = 1 then \<lparr> health = NoReply ''timeout of 10000ms exceeded'', block = BlockThrows, elapsed = 10000 \<rparr>
      else if i = 2 then \<lparr> health = Reply 503 ''Service Unavailable'', block = BlockThrows, elapsed = 40 \<rparr>
      else \<lparr> health = Reply 200 ''OK'', block = BlockThrows, elapsed = 35 \<rparr>)"

definition envDown :: "int \<Rightarrow> attempt_env" where
  "envDown i =
     (if i = 1 then \<lparr> health = Reply 404 ''Not Found'', block = BlockThrows, elapsed = 10 \<rparr>
      else \<lparr> health = NoReply ''connect ECONNREFUSED'', block = BlockThrows, elapsed = 3 \<rparr>)"

definition envPartial :: "int \<Rightarrow> attempt_env" where
  "envPartial i = \<lparr> health = Reply 206 ''Partial Content'', block = BlockNoData, elapsed = 12 \<rparr>"

section \<open>Peer transport: \<open>PeerNetwork.requestConsensus\<close>\<close>

record ConsensusRequest =
  cq_validatorId :: string
  cq_status :: HealthStatus
  cq_agentId :: string
  cq_timestamp :: int
  cq_evidence :: "HealthCheckResult list"
  cq_consensusId :: "string option"

record ConsensusResponse =
  cr_validatorId :: string
  cr_consensusId :: string
  cr_agree :: bool
  cr_agentId :: string
  cr_requesterId :: string
  cr_timestamp :: int
  cr_evidence :: "HealthCheckResult option"

record ConsensusResult =
  res_consensusId :: string
  res_responses :: "ConsensusResponse list"
  res_agreeCount :: int
  res_totalPeers :: int

text \<open>An entry of the \<open>peers\<close> map: the socket is reduced to whether it is open.\<close>

record PeerInfo =
  pi_id :: string
  pi_socketOpen :: bool
  pi_url :: "string option"

record PeerNetwork =
  pn_agentId :: string
  pn_peers :: "(string \<times> PeerInfo) list"

text \<open>
  What happens while \<open>requestConsensus\<close> runs: the identifier \<open>randomUUID\<close> draws, the
  clock, the \<open>consensus_response\<close> events the emitter raises (each with the time since
  the call at which it is raised, in the order raised) and the \<open>peers\<close> map as it stands
  when the timer fires.
\<close>

record wait_env =
  we_uuid :: string
  we_clock :: int
  we_arrivals :: "(int \<times> ConsensusResponse) list"
  we_peersAfter :: "(string \<times> PeerInfo) list"

datatype pn_effect =
    Subscribe
  | SendRequest string ConsensusRequest
  | Sleep int
  | Unsubscribe

text \<open>\<open>Array.prototype.findIndex\<close>, with \<open>None\<close> for the result \<open>-1\<close>.\<close>

fun findIndex :: "('a \<Rightarrow> bool) \<Rightarrow> 'a list \<Rightarrow> nat option" where
  "findIndex P [] = None"
| "findIndex P (x # xs) =
     (if P x then Some 0 else map_option Suc (findIndex P xs))"

text \<open>The \<open>handler\<close> closure of \<open>requestConsensus\<close>, acting on the \<open>responses\<close> array.\<close>

definition handler ::
  "string \<Rightarrow> string \<Rightarrow> ConsensusResponse list \<Rightarrow> ConsensusResponse \<Rightarrow> ConsensusResponse list" where
  "handler consensusId agentId responses response =
     (if cr_consensusId response = consensusId \<and> cr_requesterId response = agentId then
        (case findIndex (\<lambda>res. cr_agentId res = cr_agentId response) responses of
           Some existingIndex \<Rightarrow> responses[existingIndex := response]
         | None \<Rightarrow> responses @ [response])
      else responses)"

text \<open>
  \<open>broadcast\<close>: one send per peer whose socket is open. The message data is the request
  with the \<open>consensusId\<close> added.
\<close>

definition broadcastRequest :: "PeerNetwork \<Rightarrow> ConsensusRequest \<Rightarrow> pn_effect list" where
  "broadcastRequest pn msg =
     map (\<lambda>(k, peer). SendRequest (pi_id peer) msg)
       (filter (\<lambda>(k, peer). pi_socketOpen peer) (pn_peers pn))"

text \<open>
  The events the handler sees are those raised while it is subscribed, that is before the
  timer of \<open>timeoutMs\<close> fires.
\<close>

definition inTime :: "int \<Rightarrow> (int \<times> ConsensusResponse) list \<Rightarrow> ConsensusResponse list" where
  "inTime timeoutMs arrivals = map snd (filter (\<lambda>(t, r). t < timeoutMs) arrivals)"

definition requestConsensus ::
  "PeerNetwork \<Rightarrow> wait_env \<Rightarrow> ConsensusRequest \<Rightarrow> int \<Rightarrow> ConsensusResult \<times> pn_effect list" where
  "requestConsensus pn env request timeoutMs =
     (let consensusId = we_uuid env in
      if length (pn_peers pn) = 0 then
        (\<lparr> res_consensusId = consensusId, res_responses = [], res_agreeCount = 0,
            res_totalPeers = 0 \<rparr>, [])
      else
        let responses = foldl (handler consensusId (pn_agentId pn)) [] (inTime timeoutMs (we_arrivals env));
            agreeCount = int (length (filter cr_agree responses))
        in (\<lparr> res_consensusId = consensusId, res_responses = responses,
               res_agreeCount = agreeCount,
               res_totalPeers = int (length (we_peersAfter env)) \<rparr>,
            [Subscribe]
              @ broadcastRequest pn (request\<lparr> cq_consensusId := Some consensusId \<rparr>)
              @ [Sleep timeoutMs, Unsubscribe]))"

text \<open>
  Vocabulary for the properties: the time a run spends in timers, the responses the
  handler accepts, and the last element of a list when there is one.
\<close>

fun waited :: "pn_effect list \<Rightarrow> int" where
  "waited [] = 0"
| "waited (Sleep ms # es) = ms + waited es"
| "waited (e # es) = waited es"

definition accepted :: "string \<Rightarrow> string \<Rightarrow> ConsensusResponse \<Rightarrow> bool" where
  "accepted consensusId agentId response \<longleftrightarrow>
     cr_consensusId response = consensusId \<and> cr_requesterId response = agentId"

definition lastOption :: "'a list \<Rightarrow> 'a option" where
  "lastOption xs = (if xs = [] then None else Some (last xs))"

section \<open>Agent: \<open>SentinelAgent\<close>\<close>

record agent_config =
  ac_agentId :: string
  ac_agentApiKey :: string
  ac_validatorId :: string
  ac_p2pEnabled :: bool
  ac_consensusThreshold :: int
  ac_consensusTimeout :: int

record ReportPayload =
  rp_agentId :: string
  rp_validatorId :: string
  rp_status :: HealthStatus
  rp_message :: string
  rp_agentApiKey :: string

record SentinelAgent =
  sa_peerNetwork :: "PeerNetwork option"
  sa_isRunning :: bool
  sa_monitoringInProgress :: bool
  sa_lastHealthCheck :: "HealthCheckResult option"
  sa_lastReportedStatus :: "HealthStatus option"

text \<open>
  What the outside does during one monitoring cycle: the result the probe resolves to,
  the peer traffic during a consensus wait, and whether \<open>ApiClient.sendReport\<close> returns
  \<open>true\<close> (the collector answered 200 with \<open>success\<close>) or \<open>false\<close>.
\<close>

record cycle_env =
  ce_probe :: HealthCheckResult
  ce_wait :: wait_env
  ce_sendOk :: bool

text \<open>The requests an agent makes: peer traffic and \<open>POST /api/report\<close>.\<close>

datatype agent_effect = Net pn_effect | PostReport ReportPayload

definition statusLower :: "HealthStatus \<Rightarrow> string" where
  "statusLower s = (case s of HEALTHY \<Rightarrow> ''healthy'' | UNHEALTHY \<Rightarrow> ''unhealthy'')"

definition hasStatusChanged :: "SentinelAgent \<Rightarrow> HealthStatus \<Rightarrow> bool" where
  "hasStatusChanged agent currentStatus =
     (case sa_lastReportedStatus agent of
        None \<Rightarrow> True
      | Some lastReported \<Rightarrow> lastReported \<noteq> currentStatus)"

definition consensusRequestFor :: "agent_config \<Rightarrow> cycle_env \<Rightarrow> HealthCheckResult \<Rightarrow> ConsensusRequest" where
  "consensusRequestFor cfg env healthResult =
     \<lparr> cq_validatorId = hc_validatorId healthResult,
       cq_status = UNHEALTHY,
       cq_agentId = ac_agentId cfg,
       cq_timestamp = we_clock (ce_wait env),
       cq_evidence = [healthResult],
       cq_consensusId = None \<rparr>"

text \<open>
  \<open>confirmUnhealthyWithPeers\<close>. The \<open>catch\<close> branch (answer \<open>false\<close>) is for an exception
  out of \<open>requestConsensus\<close>, which has no \<open>throw\<close> of its own.
\<close>

definition confirmUnhealthyWithPeers ::
  "agent_config \<Rightarrow> SentinelAgent \<Rightarrow> cycle_env \<Rightarrow> HealthCheckResult \<Rightarrow> bool \<times> agent_effect list" where
  "confirmUnhealthyWithPeers cfg agent env healthResult =
     (case sa_peerNetwork agent of
        None \<Rightarrow> (True, [])
      | Some peerNetwork \<Rightarrow>
          if \<not> ac_p2pEnabled cfg then (True, [])
          else
            let threshold = ac_consensusThreshold cfg;
                (consensusResult, net) =
                  requestConsensus peerNetwork (ce_wait env)
                    (consensusRequestFor cfg env healthResult) (ac_consensusTimeout cfg)
            in if res_totalPeers consensusResult = 0 then (True, map Net net)
               else (let selfInclusiveAgreeCount = res_agreeCount consensusResult + 1
                     in (selfInclusiveAgreeCount \<ge> threshold, map Net net)))"

definition reportPayloadFor :: "agent_config \<Rightarrow> HealthCheckResult \<Rightarrow> ReportPayload" where
  "reportPayloadFor cfg healthResult =
     \<lparr> rp_agentId = ac_agentId cfg,
       rp_validatorId = hc_validatorId healthResult,
       rp_status = hc_status healthResult,
       rp_message =
         (case hc_error healthResult of
            None \<Rightarrow> ''Validator is '' @ statusLower (hc_status healthResult)
          | Some e \<Rightarrow> if e = [] then ''Validator is '' @ statusLower (hc_status healthResult) else e),
       rp_agentApiKey = ac_agentApiKey cfg \<rparr>"

definition sendHealthReport ::
  "agent_config \<Rightarrow> SentinelAgent \<Rightarrow> cycle_env \<Rightarrow> HealthCheckResult \<Rightarrow> SentinelAgent \<times> agent_effect list" where
  "sendHealthReport cfg agent env healthResult =
     (let payload = reportPayloadFor cfg healthResult;
          success = ce_sendOk env
      in (if success then agent\<lparr> sa_lastReportedStatus := Some (hc_status healthResult) \<rparr> else agent,
          [PostReport payload]))"

definition handleHealthResult ::
  "agent_config \<Rightarrow> SentinelAgent \<Rightarrow> cycle_env \<Rightarrow> HealthCheckResult \<Rightarrow> SentinelAgent \<times> agent_effect list" where
  "handleHealthResult cfg agent env healthResult =
     (let shouldReportUnhealthy = (hc_status healthResult = UNHEALTHY);
          statusChanged = hasStatusChanged agent (hc_status healthResult)
      in if shouldReportUnhealthy then
           (let (consensusConfirmed, net) = confirmUnhealthyWithPeers cfg agent env healthResult
            in if \<not> consensusConfirmed then (agent, net)
               else (let (agent', sent) = sendHealthReport cfg agent env healthResult
                     in (agent', net @ sent)))
         else if statusChanged then sendHealthReport cfg agent env healthResult
         else (agent, []))"



text \<open>The agent as \<open>start\<close> leaves it before the first cycle: nothing reported yet.\<close>

definition startedAgent :: "PeerNetwork option \<Rightarrow> SentinelAgent" where
  "startedAgent peerNetwork =
     \<lparr> sa_peerNetwork = peerNetwork, sa_isRunning = True, sa_monitoringInProgress = False,
       sa_lastHealthCheck = None, sa_lastReportedStatus = None \<rparr>"

text \<open>The report requests among the effects of a run.\<close>

fun posts :: "agent_effect list \<Rightarrow> ReportPayload list" where
  "posts [] = []"
| "posts (PostReport p # es) = p # posts es"
| "posts (Net e # es) = posts es"

section \<open>Collector: storage and outbound channels\<close>

text \<open>\<open>ReportStatus\<close> and \<open>AlertStatus\<close> of \<open>AgentP2PService.ts\<close>.\<close>

datatype ReportStatus = RS_HEALTHY | RS_UNHEALTHY | CONSENSUS_REACHED | CONSENSUS_FAILED

datatype AlertStatus = PENDING | ACKNOWLEDGED | RESOLVED

record AgentReport =
  ar_id :: string
  ar_agentId :: string
  ar_validatorId :: "string option"
  ar_status :: ReportStatus
  ar_message :: "string option"
  ar_signature :: "string option"
  ar_consensus :: bool
  ar_createdAt :: int

record ConsensusData =
  cd_validatorId :: string
  cd_status :: ReportStatus
  cd_reports :: "AgentReport list"
  cd_consensusReached :: bool
  cd_threshold :: int

text \<open>Rows of the tables the collector reads and writes through \<open>prisma\<close>.\<close>

record Agent =
  ag_id :: string
  ag_apiKey :: string
  ag_isActive :: bool
  ag_validatorId :: "string option"
  ag_lastSeen :: "int option"

record Validator =
  va_id :: string
  va_userId :: string
  va_name :: string
  va_isActive :: bool

record Alert =
  al_id :: string
  al_validatorId :: string
  al_userId :: string
  al_message :: string
  al_status :: AlertStatus

record WebhookConfig =
  wh_id :: string
  wh_name :: string
  wh_userId :: string
  wh_url :: string
  wh_secret :: "string option"
  wh_events :: "string list"
  wh_isActive :: bool

text \<open>Messages handed to the broadcaster (\<open>wsService\<close>).\<close>

datatype ws_extra =
    ConsensusProgress nat nat int bool
  | UnhealthyInfo string bool nat
  | ConsensusCancelled

datatype ws_message =
    ValidatorUpdate string string ws_extra
  | AlertNotification Alert

text \<open>
  The collector's state: the tables, the fields of the \<open>AgentP2PService\<close> instance
  (\<open>consensusThreshold\<close>, \<open>activeConsensus\<close>, \<open>reportHistory\<close>; the maps keep insertion
  order), and what has left the process: broadcasts, webhook deliveries (webhook id,
  event, whether the delivery succeeded) and lines written with \<open>console.error\<close>.
\<close>

record world =
  w_agents :: "Agent list"
  w_validators :: "Validator list"
  w_agentReports :: "AgentReport list"
  w_alerts :: "Alert list"
  w_webhookConfigs :: "WebhookConfig list"
  w_consensusThreshold :: int
  w_activeConsensus :: "(string \<times> ConsensusData) list"
  w_reportHistory :: "(string \<times> int list) list"
  w_wsOut :: "ws_message list"
  w_webhookOut :: "(string \<times> string \<times> bool) list"
  w_console :: "string list"

text \<open>
  What the outside decides during one call: the clock, the identifiers the database
  draws for new rows, the storage calls that throw, and for each webhook id the error
  with which \<open>sendWebhook\<close> rejects (\<open>None\<close> when the delivery succeeds).
\<close>

datatype dbop =
    AgentFindUnique | AgentUpdate | ValidatorFindUnique | AlertCreate
  | AgentReportCreate | AgentReportUpdateMany | WebhookFindMany

record call_env =
  e_now :: int
  e_newReportId :: string
  e_newAlertId :: string
  e_faults :: "dbop set"
  e_webhookFailure :: "string \<Rightarrow> string option"

text \<open>
  A call that can throw returns \<open>Inl\<close> with the error's message or \<open>Inr\<close> with its
  value, next to the state it leaves: writes made before a throw stay.
\<close>

definition prisma_agent_findUnique ::
  "call_env \<Rightarrow> string \<Rightarrow> world \<Rightarrow> (string + Agent option)" where
  "prisma_agent_findUnique e agentId w =
     (if AgentFindUnique \<in> e_faults e then Inl ''agent.findUnique failed''
      else Inr (find (\<lambda>a. ag_id a = agentId) (w_agents w)))"

text \<open>\<open>update\<close> throws when no row has the id.\<close>

definition prisma_agent_update ::
  "call_env \<Rightarrow> string \<Rightarrow> world \<Rightarrow> (string + unit) \<times> world" where
  "prisma_agent_update e agentId w =
     (if AgentUpdate \<in> e_faults e then (Inl ''agent.update failed'', w)
      else if find (\<lambda>a. ag_id a = agentId) (w_agents w) = None
      then (Inl ''Record to update not found'', w)
      else (Inr (),
            w\<lparr> w_agents :=
                 map (\<lambda>a. if ag_id a = agentId then a\<lparr> ag_lastSeen := Some (e_now e) \<rparr> else a)
                   (w_agents w) \<rparr>))"

definition prisma_validator_findUnique ::
  "call_env \<Rightarrow> string \<Rightarrow> world \<Rightarrow> (string + Validator option)" where
  "prisma_validator_findUnique e validatorId w =
     (if ValidatorFindUnique \<in> e_faults e then Inl ''validator.findUnique failed''
      else Inr (find (\<lambda>v. va_id v = validatorId) (w_validators w)))"

definition prisma_alert_create ::
  "call_env \<Rightarrow> string \<Rightarrow> string \<Rightarrow> string \<Rightarrow> AlertStatus \<Rightarrow> world \<Rightarrow> (string + Alert) \<times> world" where
  "prisma_alert_create e validatorId userId message status w =
     (if AlertCreate \<in> e_faults e then (Inl ''alert.create failed'', w)
      else
        let alert = \<lparr> al_id = e_newAlertId e, al_validatorId = validatorId, al_userId = userId,
                      al_message = message, al_status = status \<rparr>
        in (Inr alert, w\<lparr> w_alerts := w_alerts w @ [alert] \<rparr>))"

definition prisma_agentReport_create ::
  "call_env \<Rightarrow> string \<Rightarrow> string \<Rightarrow> ReportStatus \<Rightarrow> string option \<Rightarrow> string option \<Rightarrow> world
     \<Rightarrow> (string + AgentReport) \<times> world" where
  "prisma_agentReport_create e agentId validatorId status message signature w =
     (if AgentReportCreate \<in> e_faults e then (Inl ''agentReport.create failed'', w)
      else
        let report = \<lparr> ar_id = e_newReportId e, ar_agentId = agentId,
                       ar_validatorId = Some validatorId, ar_status = status,
                       ar_message = message, ar_signature = signature,
                       ar_consensus = False, ar_createdAt = e_now e \<rparr>
        in (Inr report, w\<lparr> w_agentReports := w_agentReports w @ [report] \<rparr>))"

definition prisma_agentReport_updateMany ::
  "call_env \<Rightarrow> string list \<Rightarrow> (AgentReport \<Rightarrow> AgentReport) \<Rightarrow> world \<Rightarrow> (string + unit) \<times> world" where
  "prisma_agentReport_updateMany e ids change w =
     (if AgentReportUpdateMany \<in> e_faults e then (Inl ''agentReport.updateMany failed'', w)
      else (Inr (),
            w\<lparr> w_agentReports :=
                 map (\<lambda>r. if ar_id r \<in> set ids then change r else r) (w_agentReports w) \<rparr>))"

definition prisma_webhookConfig_findMany ::
  "call_env \<Rightarrow> string \<Rightarrow> string \<Rightarrow> world \<Rightarrow> (string + WebhookConfig list)" where
  "prisma_webhookConfig_findMany e userId event w =
     (if WebhookFindMany \<in> e_faults e then Inl ''webhookConfig.findMany failed''
      else Inr (filter (\<lambda>h. wh_userId h = userId \<and> wh_isActive h \<and> event \<in> set (wh_events h))
                  (w_webhookConfigs w)))"

definition broadcast :: "ws_message \<Rightarrow> world \<Rightarrow> world" where
  "broadcast m w = w\<lparr> w_wsOut := w_wsOut w @ [m] \<rparr>"

definition consoleError :: "string \<Rightarrow> world \<Rightarrow> world" where
  "consoleError line w = w\<lparr> w_console := w_console w @ [line] \<rparr>"

section \<open>Collector: the aggregator \<open>AgentP2PService\<close>\<close>

text \<open>
  A \<open>ConsensusData\<close> object is reached through its key in \<open>activeConsensus\<close>; a write to
  one of its fields is a write to the entry under that key.
\<close>

definition consensusKey :: "string \<Rightarrow> string" where
  "consensusKey validatorId = ''validator_'' @ validatorId"

definition getWindow :: "world \<Rightarrow> string \<Rightarrow> ConsensusData option" where
  "getWindow w key = map_of (w_activeConsensus w) key"

definition modifyWindow :: "string \<Rightarrow> (ConsensusData \<Rightarrow> ConsensusData) \<Rightarrow> world \<Rightarrow> world" where
  "modifyWindow key change w =
     w\<lparr> w_activeConsensus :=
          map (\<lambda>(k, c). if k = key then (k, change c) else (k, c)) (w_activeConsensus w) \<rparr>"

definition deleteWindow :: "string \<Rightarrow> world \<Rightarrow> world" where
  "deleteWindow key w =
     w\<lparr> w_activeConsensus := filter (\<lambda>(k, c). k \<noteq> key) (w_activeConsensus w) \<rparr>"

text \<open>One delivery inside the \<open>for\<close> loop of \<open>triggerWebhooks\<close>, with its own \<open>try\<close>.\<close>

definition triggerOne :: "call_env \<Rightarrow> string \<Rightarrow> world \<Rightarrow> WebhookConfig \<Rightarrow> world" where
  "triggerOne e event w webhook =
     (if event \<in> set (wh_events webhook) then
        (case e_webhookFailure e (wh_id webhook) of
           None \<Rightarrow> w\<lparr> w_webhookOut := w_webhookOut w @ [(wh_id webhook, event, True)] \<rparr>
         | Some err \<Rightarrow>
             consoleError (''Error triggering webhook '' @ wh_id webhook @ '': '' @ err)
               (w\<lparr> w_webhookOut := w_webhookOut w @ [(wh_id webhook, event, False)] \<rparr>))
      else w)"

definition triggerWebhooks ::
  "call_env \<Rightarrow> string \<Rightarrow> string \<Rightarrow> world \<Rightarrow> (string + unit) \<times> world" where
  "triggerWebhooks e userId event w =
     (case prisma_webhookConfig_findMany e userId event w of
        Inl err \<Rightarrow> (Inr (), consoleError (''Error fetching webhooks: '' @ err) w)
      | Inr webhooks \<Rightarrow> (Inr (), foldl (triggerOne e event) w webhooks))"

text \<open>The body of the \<open>try\<close> block of \<open>reachConsensus\<close>.\<close>

definition reachConsensus_try :: "call_env \<Rightarrow> string \<Rightarrow> world \<Rightarrow> (string + unit) \<times> world" where
  "reachConsensus_try e key w =
     (case getWindow w key of
        None \<Rightarrow> (Inr (), w)
      | Some consensusData \<Rightarrow>
          (case prisma_validator_findUnique e (cd_validatorId consensusData) w of
             Inl err \<Rightarrow> (Inl err, w)
           | Inr None \<Rightarrow>
               (Inr (),
                consoleError
                  (''Validator not found for consensus: '' @ cd_validatorId consensusData) w)
           | Inr (Some validator) \<Rightarrow>
               let alertMessage =
                     ''Validator '' @ va_name validator @ '' is unhealthy. Consensus reached with ''
                       @ show_nat (length (cd_reports consensusData)) @ '' agent reports.''
               in (case prisma_alert_create e (cd_validatorId consensusData) (va_userId validator)
                          alertMessage PENDING w of
                     (Inl err, w1) \<Rightarrow> (Inl err, w1)
                   | (Inr alert, w1) \<Rightarrow>
                       (case prisma_agentReport_updateMany e (map ar_id (cd_reports consensusData))
                               (\<lambda>r. r\<lparr> ar_consensus := True, ar_status := CONSENSUS_REACHED \<rparr>) w1 of
                          (Inl err, w2) \<Rightarrow> (Inl err, w2)
                        | (Inr u, w2) \<Rightarrow>
                            let w3 = broadcast (ValidatorUpdate (va_id validator) ''unhealthy''
                                       (UnhealthyInfo (al_id alert) True
                                          (length (cd_reports consensusData)))) w2;
                                w4 = broadcast (AlertNotification alert) w3
                            in triggerWebhooks e (va_userId validator) ''validator.unhealthy'' w4))))"

text \<open>
  \<open>reachConsensus\<close>: the latch is set before the \<open>try\<close>; the \<open>catch\<close> writes the error to
  the console and the function returns normally.
\<close>

definition reachConsensus :: "call_env \<Rightarrow> string \<Rightarrow> world \<Rightarrow> (string + unit) \<times> world" where
  "reachConsensus e key w =
     (let w0 = modifyWindow key (\<lambda>c. c\<lparr> cd_consensusReached := True \<rparr>) w
      in case reachConsensus_try e key w0 of
           (Inl err, w1) \<Rightarrow> (Inr (), consoleError (''Error reaching consensus: '' @ err) w1)
         | (Inr u, w1) \<Rightarrow> (Inr (), w1))"

text \<open>
  The first report of the agent takes the status, message and time of the new one
  (\<open>find\<close> returns the first match and the assignment goes to that object).
\<close>

fun updateExisting :: "AgentReport \<Rightarrow> AgentReport list \<Rightarrow> AgentReport list" where
  "updateExisting report [] = []"
| "updateExisting report (r # rs) =
     (if ar_agentId r = ar_agentId report
      then r\<lparr> ar_status := ar_status report, ar_message := ar_message report,
              ar_createdAt := ar_createdAt report \<rparr> # rs
      else r # updateExisting report rs)"

definition upsertReport :: "AgentReport \<Rightarrow> AgentReport list \<Rightarrow> AgentReport list" where
  "upsertReport report reports =
     (case find (\<lambda>r. ar_agentId r = ar_agentId report) reports of
        Some existingReport \<Rightarrow> updateExisting report reports
      | None \<Rightarrow> reports @ [report])"

definition addReportToConsensus ::
  "call_env \<Rightarrow> string \<Rightarrow> AgentReport \<Rightarrow> world \<Rightarrow> (string + unit) \<times> world" where
  "addReportToConsensus e key report w =
     (case getWindow w key of
        None \<Rightarrow> (Inr (), w)
      | Some consensusData \<Rightarrow>
          let reports' = upsertReport report (cd_reports consensusData);
              w1 = modifyWindow key (\<lambda>c. c\<lparr> cd_reports := reports' \<rparr>) w;
              unhealthyReports = filter (\<lambda>r. ar_status r = RS_UNHEALTHY) reports';
              (res, w2) =
                (if int (length unhealthyReports) \<ge> cd_threshold consensusData
                      \<and> \<not> cd_consensusReached consensusData
                 then reachConsensus e key w1
                 else (Inr (), w1))
          in (case res of
                Inl err \<Rightarrow> (Inl err, w2)
              | Inr u \<Rightarrow>
                  (Inr (),
                   broadcast (ValidatorUpdate (cd_validatorId consensusData) ''consensus_update''
                     (ConsensusProgress (length reports') (length unhealthyReports)
                        (cd_threshold consensusData)
                        (case getWindow w2 key of
                           Some c \<Rightarrow> cd_consensusReached c
                         | None \<Rightarrow> cd_consensusReached consensusData))) w2)))"

definition initiateConsensus ::
  "call_env \<Rightarrow> AgentReport \<Rightarrow> world \<Rightarrow> (string + unit) \<times> world" where
  "initiateConsensus e initialReport w =
     (case ar_validatorId initialReport of
        None \<Rightarrow> (Inr (), w)
      | Some validatorId \<Rightarrow>
          if validatorId = [] then (Inr (), w)
          else
            let key = consensusKey validatorId
            in if getWindow w key \<noteq> None then addReportToConsensus e key initialReport w
               else
                 let consensusData =
                       \<lparr> cd_validatorId = validatorId, cd_status = RS_UNHEALTHY,
                         cd_reports = [initialReport], cd_consensusReached = False,
                         cd_threshold = w_consensusThreshold w \<rparr>;
                     w1 = w\<lparr> w_activeConsensus := w_activeConsensus w @ [(key, consensusData)] \<rparr>
                 in addReportToConsensus e key initialReport w1)"

definition cancelConsensus ::
  "call_env \<Rightarrow> string \<Rightarrow> world \<Rightarrow> (string + unit) \<times> world" where
  "cancelConsensus e validatorId w =
     (let key = consensusKey validatorId
      in case getWindow w key of
           None \<Rightarrow> (Inr (), w)
         | Some consensusData \<Rightarrow>
             (case prisma_agentReport_updateMany e (map ar_id (cd_reports consensusData))
                     (\<lambda>r. r\<lparr> ar_status := CONSENSUS_FAILED \<rparr>) w of
                (Inl err, w1) \<Rightarrow> (Inl err, w1)
              | (Inr u, w1) \<Rightarrow>
                  (Inr (),
                   deleteWindow key
                     (broadcast (ValidatorUpdate validatorId ''healthy'' ConsensusCancelled) w1))))"

text \<open>\<open>addToReportHistory\<close>: at most the last 100 times per agent.\<close>

definition addToReportHistory :: "call_env \<Rightarrow> string \<Rightarrow> world \<Rightarrow> world" where
  "addToReportHistory e agentId w =
     (let old = (case map_of (w_reportHistory w) agentId of None \<Rightarrow> [] | Some ts \<Rightarrow> ts);
          pushed = old @ [e_now e];
          kept = (if length pushed > 100 then tl pushed else pushed)
      in w\<lparr> w_reportHistory :=
              (if map_of (w_reportHistory w) agentId = None
               then w_reportHistory w @ [(agentId, kept)]
               else map (\<lambda>(k, ts). if k = agentId then (k, kept) else (k, ts)) (w_reportHistory w)) \<rparr>)"

text \<open>
  The body of the \<open>try\<close> block of \<open>processReport\<close>. A report without \<open>validatorId\<close> has
  the key of the text \<open>undefined\<close> in \<open>cancelConsensus\<close>.
\<close>

definition processReport_try ::
  "call_env \<Rightarrow> AgentReport \<Rightarrow> world \<Rightarrow> (string + unit) \<times> world" where
  "processReport_try e report w =
     (case prisma_agent_update e (ar_agentId report) w of
        (Inl err, w1) \<Rightarrow> (Inl err, w1)
      | (Inr u, w1) \<Rightarrow>
          (case (if ar_status report = RS_UNHEALTHY then initiateConsensus e report w1
                 else if ar_status report = RS_HEALTHY then
                   cancelConsensus e
                     (case ar_validatorId report of None \<Rightarrow> ''undefined'' | Some v \<Rightarrow> v) w1
                 else (Inr (), w1)) of
             (Inl err, w2) \<Rightarrow> (Inl err, w2)
           | (Inr u', w2) \<Rightarrow> (Inr (), addToReportHistory e (ar_agentId report) w2)))"

definition processReport ::
  "call_env \<Rightarrow> AgentReport \<Rightarrow> world \<Rightarrow> (string + unit) \<times> world" where
  "processReport e report w =
     (case processReport_try e report w of
        (Inl err, w1) \<Rightarrow> (Inr (), consoleError (''Error processing agent report: '' @ err) w1)
      | (Inr u, w1) \<Rightarrow> (Inr (), w1))"

text \<open>
  \<open>cleanupOldConsensus\<close>, one entry of the loop. Reading \<open>reports[0].createdAt\<close> of an
  empty array throws. The \<open>updateMany\<close> is not awaited and its rejection goes to
  \<open>console.error\<close>. The flag \<open>consensusReached\<close> is not read.
\<close>

definition cleanupEntry ::
  "call_env \<Rightarrow> (string + unit) \<times> world \<Rightarrow> string \<times> ConsensusData \<Rightarrow> (string + unit) \<times> world" where
  "cleanupEntry e acc entry =
     (case acc of
        (Inl err, w) \<Rightarrow> (Inl err, w)
      | (Inr u, w) \<Rightarrow>
          (case entry of (key, consensus) \<Rightarrow>
             (case cd_reports consensus of
                [] \<Rightarrow> (Inl ''Cannot read properties of undefined'', w)
              | first # others \<Rightarrow>
                  let age = e_now e - ar_createdAt first;
                      maxAge = 10 * 60 * 1000
                  in if age > maxAge then
                       (case prisma_agentReport_updateMany e (map ar_id (cd_reports consensus))
                               (\<lambda>r. r\<lparr> ar_status := CONSENSUS_FAILED \<rparr>) w of
                          (Inl err, w1) \<Rightarrow> (Inr (), deleteWindow key (consoleError err w1))
                        | (Inr u', w1) \<Rightarrow> (Inr (), deleteWindow key w1))
                     else (Inr (), w))))"

definition cleanupOldConsensus :: "call_env \<Rightarrow> world \<Rightarrow> (string + unit) \<times> world" where
  "cleanupOldConsensus e w = foldl (cleanupEntry e) (Inr (), w) (w_activeConsensus w)"

section \<open>Collector ingress: \<open>POST /api/report\<close>\<close>

text \<open>
  The fields read from the JSON body; \<open>None\<close> is an absent field. A field is falsy when
  it is absent or the empty text.
\<close>

record report_request =
  rq_agentId :: "string option"
  rq_agentApiKey :: "string option"
  rq_validatorId :: "string option"
  rq_status :: "string option"
  rq_message :: "string option"
  rq_signature :: "string option"

datatype response_body = ErrorBody string | ReportAccepted string

record http_response =
  hr_status :: nat
  hr_body :: response_body

definition falsy :: "string option \<Rightarrow> bool" where
  "falsy x \<longleftrightarrow> (case x of None \<Rightarrow> True | Some s \<Rightarrow> s = [])"

definition text_of :: "string option \<Rightarrow> string" where
  "text_of x = (case x of None \<Rightarrow> [] | Some s \<Rightarrow> s)"

definition allowedStatuses :: "string list" where
  "allowedStatuses = [''HEALTHY'', ''UNHEALTHY'', ''CONSENSUS_REACHED'', ''CONSENSUS_FAILED'']"

text \<open>The enum column of the report table, read from the text of the request.\<close>

definition statusOfString :: "string \<Rightarrow> ReportStatus option" where
  "statusOfString s =
     (if s = ''HEALTHY'' then Some RS_HEALTHY
      else if s = ''UNHEALTHY'' then Some RS_UNHEALTHY
      else if s = ''CONSENSUS_REACHED'' then Some CONSENSUS_REACHED
      else if s = ''CONSENSUS_FAILED'' then Some CONSENSUS_FAILED
      else None)"

text \<open>The \<open>validator\<close> relation included with the agent row.\<close>

definition validatorOf :: "world \<Rightarrow> Agent \<Rightarrow> Validator option" where
  "validatorOf w agent =
     (case ag_validatorId agent of
        None \<Rightarrow> None
      | Some vid \<Rightarrow> find (\<lambda>v. va_id v = vid) (w_validators w))"

definition serverError :: "string \<Rightarrow> world \<Rightarrow> http_response \<times> world" where
  "serverError err w =
     (\<lparr> hr_status = 500, hr_body = ErrorBody ''Internal server error'' \<rparr>,
      consoleError (''Error processing agent report: '' @ err) w)"

definition reportHandler :: "call_env \<Rightarrow> report_request \<Rightarrow> world \<Rightarrow> http_response \<times> world" where
  "reportHandler e req w =
     (if falsy (rq_agentId req) \<or> falsy (rq_agentApiKey req) \<or> falsy (rq_validatorId req)
           \<or> falsy (rq_status req)
      then (\<lparr> hr_status = 400,
              hr_body = ErrorBody ''agentId, agentApiKey, validatorId, and status are required'' \<rparr>, w)
      else if text_of (rq_status req) \<notin> set allowedStatuses
      then (\<lparr> hr_status = 400, hr_body = ErrorBody ''Invalid status value'' \<rparr>, w)
      else
        (case prisma_agent_findUnique e (text_of (rq_agentId req)) w of
           Inl err \<Rightarrow> serverError err w
         | Inr None \<Rightarrow>
             (\<lparr> hr_status = 401, hr_body = ErrorBody ''Invalid or inactive agent'' \<rparr>, w)
         | Inr (Some agent) \<Rightarrow>
             if \<not> ag_isActive agent
             then (\<lparr> hr_status = 401, hr_body = ErrorBody ''Invalid or inactive agent'' \<rparr>, w)
             else if ag_apiKey agent \<noteq> text_of (rq_agentApiKey req)
             then (\<lparr> hr_status = 401, hr_body = ErrorBody ''Agent API key mismatch'' \<rparr>, w)
             else
               (case validatorOf w agent of
                  None \<Rightarrow>
                    (\<lparr> hr_status = 403,
                        hr_body = ErrorBody ''Agent is not registered for the provided validator'' \<rparr>, w)
                | Some validator \<Rightarrow>
                    if va_id validator \<noteq> text_of (rq_validatorId req)
                    then (\<lparr> hr_status = 403,
                            hr_body = ErrorBody ''Agent is not registered for the provided validator'' \<rparr>, w)
                    else if \<not> va_isActive validator
                    then (\<lparr> hr_status = 403, hr_body = ErrorBody ''Validator is inactive'' \<rparr>, w)
                    else
                      (case statusOfString (text_of (rq_status req)) of
                         None \<Rightarrow> serverError ''Invalid value for argument status'' w
                       | Some status \<Rightarrow>
                           (case prisma_agentReport_create e (text_of (rq_agentId req))
                                   (text_of (rq_validatorId req)) status (rq_message req)
                                   (rq_signature req) w of
                              (Inl err, w1) \<Rightarrow> serverError err w1
                            | (Inr report, w1) \<Rightarrow>
                                (case prisma_agent_update e (text_of (rq_agentId req)) w1 of
                                   (Inl err, w2) \<Rightarrow> serverError err w2
                                 | (Inr u, w2) \<Rightarrow>
                                     (case processReport e report w2 of
                                        (Inl err, w3) \<Rightarrow> serverError err w3
                                      | (Inr u', w3) \<Rightarrow>
                                          (\<lparr> hr_status = 200,
                                              hr_body = ReportAccepted (ar_id report) \<rparr>, w3))))))))"

text \<open>
  Vocabulary for the properties of the aggregator: the window of a validator as it
  stands once a report has been added to it (a new window holds the report alone), the
  quorum event (the condition under which \<open>addReportToConsensus\<close> calls
  \<open>reachConsensus\<close>), the alert \<open>reachConsensus\<close> creates, and a run of reports.
\<close>

definition afterAdd :: "ConsensusData \<Rightarrow> AgentReport \<Rightarrow> ConsensusData" where
  "afterAdd c report = c\<lparr> cd_reports := upsertReport report (cd_reports c) \<rparr>"

definition windowAfter :: "world \<Rightarrow> AgentReport \<Rightarrow> string \<Rightarrow> ConsensusData" where
  "windowAfter w report validatorId =
     (case getWindow w (consensusKey validatorId) of
        None \<Rightarrow>
          \<lparr> cd_validatorId = validatorId, cd_status = RS_UNHEALTHY, cd_reports = [report],
            cd_consensusReached = False, cd_threshold = w_consensusThreshold w \<rparr>
      | Some c \<Rightarrow> afterAdd c report)"

definition agentUpdateOk :: "call_env \<Rightarrow> string \<Rightarrow> world \<Rightarrow> bool" where
  "agentUpdateOk e agentId w \<longleftrightarrow>
     AgentUpdate \<notin> e_faults e \<and> find (\<lambda>a. ag_id a = agentId) (w_agents w) \<noteq> None"

definition unhealthyCount :: "ConsensusData \<Rightarrow> int" where
  "unhealthyCount c = int (length (filter (\<lambda>r. ar_status r = RS_UNHEALTHY) (cd_reports c)))"

definition quorumEvent :: "world \<Rightarrow> AgentReport \<Rightarrow> string \<Rightarrow> bool" where
  "quorumEvent w report validatorId \<longleftrightarrow>
     unhealthyCount (windowAfter w report validatorId) \<ge> cd_threshold (windowAfter w report validatorId)
     \<and> \<not> cd_consensusReached (windowAfter w report validatorId)"

definition alertFor :: "call_env \<Rightarrow> ConsensusData \<Rightarrow> Validator \<Rightarrow> Alert" where
  "alertFor e c v =
     \<lparr> al_id = e_newAlertId e, al_validatorId = cd_validatorId c, al_userId = va_userId v,
       al_message = ''Validator '' @ va_name v @ '' is unhealthy. Consensus reached with ''
                       @ show_nat (length (cd_reports c)) @ '' agent reports.'',
       al_status = PENDING \<rparr>"

definition latched :: "world \<Rightarrow> string \<Rightarrow> bool" where
  "latched w validatorId \<longleftrightarrow>
     (case getWindow w (consensusKey validatorId) of
        None \<Rightarrow> False
      | Some c \<Rightarrow> cd_consensusReached c)"

definition unhealthyFor :: "string \<Rightarrow> AgentReport \<Rightarrow> bool" where
  "unhealthyFor validatorId report \<longleftrightarrow>
     ar_status report = RS_UNHEALTHY \<and> ar_validatorId report = Some validatorId \<and> validatorId \<noteq> []"

fun processAll :: "(call_env \<times> AgentReport) list \<Rightarrow> world \<Rightarrow> world" where
  "processAll [] w = w"
| "processAll ((e, report) # rest) w = processAll rest (snd (processReport e report w))"

subsection \<open>Sample collector states\<close>

text \<open>
  Two agents \<open>a1\<close> and \<open>a2\<close> watch validator \<open>v1\<close> of user \<open>u1\<close>, who has one webhook
  for \<open>validator.unhealthy\<close>; the threshold is 2 and nothing has happened yet.
\<close>

definition world0 :: world where
  "world0 =
     \<lparr> w_agents =
         [\<lparr> ag_id = ''a1'', ag_apiKey = ''k1'', ag_isActive = True, ag_validatorId = Some ''v1'',
            ag_lastSeen = None \<rparr>,
          \<lparr> ag_id = ''a2'', ag_apiKey = ''k1'', ag_isActive = True, ag_validatorId = Some ''v1'',
            ag_lastSeen = None \<rparr>],
       w_validators =
         [\<lparr> va_id = ''v1'', va_userId = ''u1'', va_name = ''node'', va_isActive = True \<rparr>],
       w_agentReports = [],
       w_alerts = [],
       w_webhookConfigs =
         [\<lparr> wh_id = ''h1'', wh_name = ''pager'', wh_userId = ''u1'', wh_url = ''http://x/hook'',
            wh_secret = Some ''s3cret'', wh_events = [''validator.unhealthy''],
            wh_isActive = True \<rparr>],
       w_consensusThreshold = 2,
       w_activeConsensus = [],
       w_reportHistory = [],
       w_wsOut = [],
       w_webhookOut = [],
       w_console = [] \<rparr>"

definition envAt :: "int \<Rightarrow> string \<Rightarrow> string \<Rightarrow> dbop set \<Rightarrow> call_env" where
  "envAt t reportId alertId faults =
     \<lparr> e_now = t, e_newReportId = reportId, e_newAlertId = alertId, e_faults = faults,
       e_webhookFailure = (\<lambda>h. None) \<rparr>"

definition requestOf :: "string \<Rightarrow> string \<Rightarrow> string \<Rightarrow> string \<Rightarrow> report_request" where
  "requestOf agentId key validatorId status =
     \<lparr> rq_agentId = Some agentId, rq_agentApiKey = Some key, rq_validatorId = Some validatorId,
       rq_status = Some status, rq_message = None, rq_signature = None \<rparr>"

definition reportOf :: "string \<Rightarrow> string \<Rightarrow> string \<Rightarrow> ReportStatus \<Rightarrow> int \<Rightarrow> AgentReport" where
  "reportOf reportId agentId validatorId status t =
     \<lparr> ar_id = reportId, ar_agentId = agentId, ar_validatorId = Some validatorId,
       ar_status = status, ar_message = None, ar_signature = None, ar_consensus = False,
       ar_createdAt = t \<rparr>"

text \<open>
  \<open>a1\<close> and then \<open>a2\<close> report \<open>v1\<close> unhealthy through the endpoint, one second apart; eleven
  minutes later the sweep runs.
\<close>

definition worldOne :: world where
  "worldOne = snd (reportHandler (envAt 0 ''r1'' ''al1'' {}) (requestOf ''a1'' ''k1'' ''v1'' ''UNHEALTHY'') world0)"



text \<open>
  The same two reports handed to the aggregator of a collector that has no row for
  validator \<open>v1\<close>, and of one whose alert table refuses the insert.
\<close>

definition worldNoValidator :: world where
  "worldNoValidator = world0\<lparr> w_validators := [] \<rparr>"

definition stepOne :: "dbop set \<Rightarrow> call_env \<times> AgentReport" where
  "stepOne faults = (envAt 0 ''r1'' ''al1'' faults, reportOf ''r1'' ''a1'' ''v1'' RS_UNHEALTHY 0)"

definition stepTwo :: "dbop set \<Rightarrow> call_env \<times> AgentReport" where
  "stepTwo faults = (envAt 1000 ''r2'' ''al1'' faults, reportOf ''r2'' ''a2'' ''v1'' RS_UNHEALTHY 1000)"

definition stepThree :: "dbop set \<Rightarrow> call_env \<times> AgentReport" where
  "stepThree faults = (envAt 2000 ''r3'' ''al2'' faults, reportOf ''r3'' ''a1'' ''v1'' RS_UNHEALTHY 2000)"

definition aggOne :: world where
  "aggOne = processAll [stepOne {}] world0"

definition aggTwo :: world where
  "aggTwo = processAll [stepOne {}, stepTwo {}] world0"

text \<open>
  Vocabulary for the properties of the endpoint: a request is well formed when the four
  required fields are present and the status is one of the four texts; it is
  authenticated when its agent exists, is active and has the given key; it is in scope
  when the agent's validator is the given one and is active.
\<close>

definition wellFormed :: "report_request \<Rightarrow> bool" where
  "wellFormed req \<longleftrightarrow>
     \<not> falsy (rq_agentId req) \<and> \<not> falsy (rq_agentApiKey req) \<and> \<not> falsy (rq_validatorId req)
     \<and> \<not> falsy (rq_status req) \<and> text_of (rq_status req) \<in> set allowedStatuses"

definition agentOf :: "world \<Rightarrow> report_request \<Rightarrow> Agent option" where
  "agentOf w req = find (\<lambda>a. ag_id a = text_of (rq_agentId req)) (w_agents w)"

definition authenticated :: "world \<Rightarrow> report_request \<Rightarrow> bool" where
  "authenticated w req \<longleftrightarrow>
     (case agentOf w req of
        None \<Rightarrow> False
      | Some a \<Rightarrow> ag_isActive a \<and> ag_apiKey a = text_of (rq_agentApiKey req))"

definition inScope :: "world \<Rightarrow> report_request \<Rightarrow> bool" where
  "inScope w req \<longleftrightarrow>
     (case agentOf w req of
        None \<Rightarrow> False
      | Some a \<Rightarrow>
          (case validatorOf w a of
             None \<Rightarrow> False
           | Some v \<Rightarrow> va_id v = text_of (rq_validatorId req) \<and> va_isActive v))"

definition touchAgent :: "call_env \<Rightarrow> string \<Rightarrow> Agent list \<Rightarrow> Agent list" where
  "touchAgent e agentId agents =
     map (\<lambda>a. if ag_id a = agentId then a\<lparr> ag_lastSeen := Some (e_now e) \<rparr> else a) agents"






subsection \<open>Sample agent runs\<close>

definition agentCfg :: "bool \<Rightarrow> agent_config" where
  "agentCfg p2p =
     \<lparr> ac_agentId = ''a1'', ac_agentApiKey = ''k1'', ac_validatorId = ''v1'',
       ac_p2pEnabled = p2p, ac_consensusThreshold = 2, ac_consensusTimeout = 120000 \<rparr>"

definition probeResult :: "HealthStatus \<Rightarrow> HealthCheckResult" where
  "probeResult s =
     \<lparr> hc_validatorId = ''v1'', hc_status = s, hc_responseTime = 12, hc_timestamp = 0,
       hc_error = None, hc_beaconStatus = None \<rparr>"

definition responseOf :: "string \<Rightarrow> string \<Rightarrow> string \<Rightarrow> bool \<Rightarrow> ConsensusResponse" where
  "responseOf consensusId agentId requesterId agree =
     \<lparr> cr_validatorId = ''v1'', cr_consensusId = consensusId, cr_agree = agree,
       cr_agentId = agentId, cr_requesterId = requesterId, cr_timestamp = 0,
       cr_evidence = None \<rparr>"

definition peerOf :: "string \<Rightarrow> string \<times> PeerInfo" where
  "peerOf agentId = (agentId, \<lparr> pi_id = agentId, pi_socketOpen = True, pi_url = None \<rparr>)"

definition netTwo :: PeerNetwork where
  "netTwo = \<lparr> pn_agentId = ''a1'', pn_peers = [peerOf ''a2'', peerOf ''a3''] \<rparr>"

definition netNone :: PeerNetwork where
  "netNone = \<lparr> pn_agentId = ''a1'', pn_peers = [] \<rparr>"

text \<open>
  Peer \<open>a2\<close> first disagrees and then agrees, peer \<open>a3\<close> agrees, a response for another
  request is raised in between, and \<open>a3\<close> takes its agreement back ten seconds after the
  timeout of 120 seconds.
\<close>

definition waitBusy :: wait_env where
  "waitBusy =
     \<lparr> we_uuid = ''c1'', we_clock = 0,
       we_arrivals =
         [(100, responseOf ''c1'' ''a2'' ''a1'' False),
          (250, responseOf ''c1'' ''a3'' ''a1'' True),
          (300, responseOf ''c0'' ''a3'' ''a1'' False),
          (900, responseOf ''c1'' ''a2'' ''a1'' True),
          (130000, responseOf ''c1'' ''a3'' ''a1'' False)],
       we_peersAfter = [peerOf ''a2'', peerOf ''a3''] \<rparr>"

definition waitSilent :: wait_env where
  "waitSilent =
     \<lparr> we_uuid = ''c2'', we_clock = 0, we_arrivals = [(50, responseOf ''c2'' ''a2'' ''a1'' False)],
       we_peersAfter = [peerOf ''a2'', peerOf ''a3''] \<rparr>"

text \<open>The same wait when both peers have closed their sockets by the time it ends.\<close>

definition waitLeft :: wait_env where
  "waitLeft = waitSilent\<lparr> we_peersAfter := [] \<rparr>"

definition cycleOf :: "HealthStatus \<Rightarrow> wait_env \<Rightarrow> bool \<Rightarrow> cycle_env" where
  "cycleOf s wait ok = \<lparr> ce_probe = probeResult s, ce_wait = wait, ce_sendOk = ok \<rparr>"

section \<open>Webhook dispatcher: \<open>WebhookService\<close>\<close>

text \<open>
  The request \<open>sendWebhook\<close> writes. The functions of the platform are parameters:
  \<open>hmac key text\<close> is the hex digest of \<open>crypto.createHmac("sha256", key)\<close> over the text,
  \<open>stringify\<close> is \<open>JSON.stringify\<close> on the payload, \<open>urlOk\<close> says whether \<open>new URL\<close> accepts
  the address, and \<open>net\<close> is the outcome of the HTTP exchange.
\<close>

record webhook_request =
  wr_url :: string
  wr_method :: string
  wr_headers :: "(string \<times> string) list"
  wr_body :: string

definition generateSignature ::
  "(string \<Rightarrow> string \<Rightarrow> string) \<Rightarrow> string \<Rightarrow> string option \<Rightarrow> string option" where
  "generateSignature hmac payload secret =
     (case secret of
        None \<Rightarrow> None
      | Some s \<Rightarrow> if s = [] then None else Some (hmac s payload))"

definition validateSignature ::
  "(string \<Rightarrow> string \<Rightarrow> string) \<Rightarrow> string \<Rightarrow> string option \<Rightarrow> string option \<Rightarrow> bool" where
  "validateSignature hmac payload signature secret =
     (case secret of
        None \<Rightarrow> False
      | Some s \<Rightarrow>
          if s = [] then False
          else (case signature of
                  None \<Rightarrow> False
                | Some sig \<Rightarrow> if sig = [] then False else sig = hmac s payload))"

definition webhookHeaders ::
  "string \<Rightarrow> string option \<Rightarrow> string option \<Rightarrow> (string \<times> string) list" where
  "webhookHeaders postData signature secret =
     [(''Content-Type'', ''application/json''),
      (''Content-Length'', show_nat (length postData)),
      (''User-Agent'', ''Sentinel-Webhook/1.0'')]
     @ (case signature of
          None \<Rightarrow> []
        | Some sig \<Rightarrow> if sig = [] then [] else [(''X-Sentinel-Signature'', sig)])
     @ (case secret of
          None \<Rightarrow> []
        | Some s \<Rightarrow> if s = [] then [] else [(''X-Sentinel-Secret'', s)])"

text \<open>
  \<open>sendWebhook\<close>: the result of the promise (\<open>Inl\<close> a rejection) and the requests written
  to the network, none when the address does not parse.
\<close>

definition sendWebhook ::
  "(string \<Rightarrow> string \<Rightarrow> string) \<Rightarrow> ('p \<Rightarrow> string) \<Rightarrow> (string \<Rightarrow> bool)
     \<Rightarrow> (webhook_request \<Rightarrow> http_outcome) \<Rightarrow> WebhookConfig \<Rightarrow> 'p
     \<Rightarrow> (string + bool) \<times> webhook_request list" where
  "sendWebhook hmac stringify urlOk net webhook payload =
     (let payloadString = stringify payload;
          signature = generateSignature hmac payloadString (wh_secret webhook);
          postData = payloadString
      in if \<not> urlOk (wh_url webhook) then (Inl ''Invalid URL'', [])
         else
           let request = \<lparr> wr_url = wh_url webhook, wr_method = ''POST'',
                           wr_headers = webhookHeaders postData signature (wh_secret webhook),
                           wr_body = postData \<rparr>
           in (case net request of
                 Reply statusCode data \<Rightarrow>
                   if 200 \<le> statusCode \<and> statusCode < 300 then (Inr True, [request])
                   else (Inl (''HTTP '' @ show_nat statusCode @ '': '' @ data), [request])
               | NoReply msg \<Rightarrow> (Inl msg, [request])))"

subsection \<open>Sample webhook\<close>

text \<open>A stand-in for the digest, of the right length, for running the dispatcher.\<close>

definition digestStub :: "string \<Rightarrow> string \<Rightarrow> string" where
  "digestStub key text = replicate 64 (CHR ''a'')"

definition hookOne :: WebhookConfig where
  "hookOne =
     \<lparr> wh_id = ''h1'', wh_name = ''pager'', wh_userId = ''u1'', wh_url = ''http://x/hook'',
       wh_secret = Some ''s3cret'', wh_events = [''validator.unhealthy''], wh_isActive = True \<rparr>"

section \<open>Properties\<close>

subsection \<open>Probe\<close>

lemma checkLoop_done:
  "\<not> attempt \<le> healthCheckRetries cfg \<Longrightarrow>
   checkLoop cfg env now attempt lastError tr =
     (\<lparr> bs_isHealthy = False, bs_responseTime = healthCheckTimeout cfg, bs_blockHeight = None,
         bs_timestamp = now, bs_error = Some (finalMessage lastError) \<rparr>, tr)"
  by (subst checkLoop.simps) (simp add: finalMessage_def)

lemma checkLoop_fail_step:
  assumes "attempt \<le> healthCheckRetries cfg" and "attemptFails (env attempt)"
  shows "checkLoop cfg env now attempt lastError tr =
           checkLoop cfg env now (attempt + 1) (Some (attemptError (env attempt)))
             (tr @ failTrace cfg env attempt)"
proof (cases "health (env attempt)")
  case (Reply st t)
  with assms show ?thesis
    by (subst checkLoop.simps)
       (simp add: axios_get_def attemptFails_def attemptError_def failTrace_def attemptThrows_def)
next
  case (NoReply m)
  with assms show ?thesis
    by (subst checkLoop.simps)
       (simp add: axios_get_def attemptFails_def attemptError_def failTrace_def attemptThrows_def)
qed

lemma checkLoop_ok_step:
  assumes "attempt \<le> healthCheckRetries cfg" and "health (env attempt) = Reply 200 t"
  shows "checkLoop cfg env now attempt lastError tr =
           (\<lparr> bs_isHealthy = True, bs_responseTime = elapsed (env attempt),
               bs_blockHeight = (case block (env attempt) of
                        BlockSlot n \<Rightarrow> Some n | BlockNoData \<Rightarrow> None | BlockThrows \<Rightarrow> None),
               bs_timestamp = now, bs_error = None \<rparr>,
            tr @ [HealthGet attempt, BlockGet attempt])"
  using assms by (subst checkLoop.simps) (simp add: axios_get_def)

lemma checkLoop_all_fail:
  "(\<And>i. attempt \<le> i \<Longrightarrow> i \<le> healthCheckRetries cfg \<Longrightarrow> attemptFails (env i)) \<Longrightarrow>
   checkLoop cfg env now attempt lastError tr =
     (\<lparr> bs_isHealthy = False, bs_responseTime = healthCheckTimeout cfg, bs_blockHeight = None,
         bs_timestamp = now,
         bs_error = Some (finalMessage
            (if attempt \<le> healthCheckRetries cfg
             then Some (attemptError (env (healthCheckRetries cfg))) else lastError)) \<rparr>,
      tr @ concat (map (failTrace cfg env) [attempt..healthCheckRetries cfg]))"
proof (induction "nat (healthCheckRetries cfg + 1 - attempt)" arbitrary: attempt lastError tr)
  case 0
  then have "\<not> attempt \<le> healthCheckRetries cfg" by simp
  then show ?case by (simp add: checkLoop_done)
next
  case (Suc k)
  then have le: "attempt \<le> healthCheckRetries cfg" by simp
  have fails: "attemptFails (env attempt)" using Suc.prems le by simp
  have k: "k = nat (healthCheckRetries cfg + 1 - (attempt + 1))" using Suc.hyps(2) by simp
  have rest: "\<And>i. attempt + 1 \<le> i \<Longrightarrow> i \<le> healthCheckRetries cfg \<Longrightarrow> attemptFails (env i)"
    using Suc.prems by simp
  have up: "[attempt..healthCheckRetries cfg] = attempt # [attempt + 1..healthCheckRetries cfg]"
    using le by (simp add: upto_rec1)
  have last: "\<not> attempt + 1 \<le> healthCheckRetries cfg \<Longrightarrow> attempt = healthCheckRetries cfg"
    using le by simp
  have step: "checkLoop cfg env now attempt lastError tr =
      checkLoop cfg env now (attempt + 1) (Some (attemptError (env attempt)))
        (tr @ failTrace cfg env attempt)"
    using le fails by (rule checkLoop_fail_step)
  note ih = Suc.hyps(1) [of "attempt + 1" "Some (attemptError (env attempt))"
      "tr @ failTrace cfg env attempt", OF k rest]
  show ?case
  proof (cases "attempt + 1 \<le> healthCheckRetries cfg")
    case True
    then show ?thesis using le by (simp add: step ih up del: upto.simps)
  next
    case False
    then have "healthCheckRetries cfg = attempt" using le by linarith
    then have e: "env (healthCheckRetries cfg) = env attempt" by (rule arg_cong)
    show ?thesis using le False by (simp add: step ih up e del: upto.simps)
  qed
qed

lemma checkLoop_first_ok:
  "attempt \<le> k \<Longrightarrow> k \<le> healthCheckRetries cfg \<Longrightarrow>
   (\<And>i. attempt \<le> i \<Longrightarrow> i < k \<Longrightarrow> attemptFails (env i)) \<Longrightarrow>
   health (env k) = Reply 200 t \<Longrightarrow>
   checkLoop cfg env now attempt lastError tr =
     (\<lparr> bs_isHealthy = True, bs_responseTime = elapsed (env k),
               bs_blockHeight = (case block (env k) of
                        BlockSlot n \<Rightarrow> Some n | BlockNoData \<Rightarrow> None | BlockThrows \<Rightarrow> None),
               bs_timestamp = now, bs_error = None \<rparr>,
      tr @ concat (map (failTrace cfg env) [attempt..k - 1]) @ [HealthGet k, BlockGet k])"
proof (induction "nat (k - attempt)" arbitrary: attempt lastError tr)
  case 0
  then have "attempt = k" by simp
  with 0 show ?case by (simp add: checkLoop_ok_step)
next
  case (Suc d)
  then have lt: "attempt < k" by simp
  then have le: "attempt \<le> healthCheckRetries cfg" using Suc.prems by simp
  have fails: "attemptFails (env attempt)" using Suc.prems lt by simp
  have d: "d = nat (k - (attempt + 1))" using Suc.hyps(2) by simp
  have rest: "\<And>i. attempt + 1 \<le> i \<Longrightarrow> i < k \<Longrightarrow> attemptFails (env i)"
    using Suc.prems by simp
  have up: "[attempt..k - 1] = attempt # [attempt + 1..k - 1]"
    using lt by (simp add: upto_rec1)
  have le': "attempt + 1 \<le> k" using lt by simp
  have step: "checkLoop cfg env now attempt lastError tr =
      checkLoop cfg env now (attempt + 1) (Some (attemptError (env attempt)))
        (tr @ failTrace cfg env attempt)"
    using le fails by (rule checkLoop_fail_step)
  note ih = Suc.hyps(1) [of "attempt + 1" "Some (attemptError (env attempt))"
      "tr @ failTrace cfg env attempt", OF d le' Suc.prems(2) rest Suc.prems(4)]
  show ?case
    by (simp add: step ih up del: upto.simps)
qed


text \<open>
  C7 (as amended). In a probe cycle, the first attempt answered with status 200 yields
  a HEALTHY result whatever the block-height request does. Every other answer (other 2xx
  and 4xx included) and every 5xx or transport error is a failed attempt. When all
  \<open>healthCheckRetries\<close> attempts fail, exactly that many requests are made, the result
  is UNHEALTHY and carries the message of the last failure (the fixed fallback text
  when that message is empty or no attempt was made). A pause of 1000 ms follows each
  failed attempt that threw (5xx or transport error) and was not the last one.
\<close>

theorem checkBeaconNodeHealth_outcome:
  "(1 \<le> k \<and> k \<le> healthCheckRetries cfg \<and> (\<forall>i. 1 \<le> i \<and> i < k \<longrightarrow> attemptFails (env i))
      \<and> health (env k) = Reply 200 t \<longrightarrow>
      hc_status (fst (performHealthCheck cfg env now ct)) = HEALTHY \<and>
      snd (performHealthCheck cfg env now ct) =
        concat (map (failTrace cfg env) [1..k - 1]) @ [HealthGet k, BlockGet k])
   \<and> ((\<forall>i. 1 \<le> i \<and> i \<le> healthCheckRetries cfg \<longrightarrow> attemptFails (env i)) \<longrightarrow>
      hc_status (fst (performHealthCheck cfg env now ct)) = UNHEALTHY \<and>
      map_option bs_error (hc_beaconStatus (fst (performHealthCheck cfg env now ct))) =
        Some (Some (finalMessage
          (if 1 \<le> healthCheckRetries cfg
           then Some (attemptError (env (healthCheckRetries cfg))) else None))) \<and>
      snd (performHealthCheck cfg env now ct) =
        concat (map (failTrace cfg env) [1..healthCheckRetries cfg]))"
proof (intro conjI impI)
  assume a: "1 \<le> k \<and> k \<le> healthCheckRetries cfg \<and> (\<forall>i. 1 \<le> i \<and> i < k \<longrightarrow> attemptFails (env i))
      \<and> health (env k) = Reply 200 t"
  have eq: "checkLoop cfg env now 1 None [] =
     (\<lparr> bs_isHealthy = True, bs_responseTime = elapsed (env k),
               bs_blockHeight = (case block (env k) of
                        BlockSlot n \<Rightarrow> Some n | BlockNoData \<Rightarrow> None | BlockThrows \<Rightarrow> None),
               bs_timestamp = now, bs_error = None \<rparr>,
      [] @ concat (map (failTrace cfg env) [1..k - 1]) @ [HealthGet k, BlockGet k])"
    using a by (intro checkLoop_first_ok) auto
  show "hc_status (fst (performHealthCheck cfg env now ct)) = HEALTHY"
    by (simp add: performHealthCheck_def checkBeaconNodeHealth_def eq)
  show "snd (performHealthCheck cfg env now ct) =
        concat (map (failTrace cfg env) [1..k - 1]) @ [HealthGet k, BlockGet k]"
    by (simp add: performHealthCheck_def checkBeaconNodeHealth_def eq)
next
  assume a: "\<forall>i. 1 \<le> i \<and> i \<le> healthCheckRetries cfg \<longrightarrow> attemptFails (env i)"
  note eq = checkLoop_all_fail [of 1 cfg env now None "[]"]
  have eq': "checkLoop cfg env now 1 None [] =
     (\<lparr> bs_isHealthy = False, bs_responseTime = healthCheckTimeout cfg, bs_blockHeight = None,
         bs_timestamp = now,
         bs_error = Some (finalMessage
            (if 1 \<le> healthCheckRetries cfg
             then Some (attemptError (env (healthCheckRetries cfg))) else None)) \<rparr>,
      [] @ concat (map (failTrace cfg env) [1..healthCheckRetries cfg]))"
    using a by (intro eq) auto
  show "hc_status (fst (performHealthCheck cfg env now ct)) = UNHEALTHY"
    by (simp add: performHealthCheck_def checkBeaconNodeHealth_def eq')
  show "map_option bs_error (hc_beaconStatus (fst (performHealthCheck cfg env now ct))) =
        Some (Some (finalMessage
          (if 1 \<le> healthCheckRetries cfg
           then Some (attemptError (env (healthCheckRetries cfg))) else None)))"
    by (simp add: performHealthCheck_def checkBeaconNodeHealth_def eq')
  show "snd (performHealthCheck cfg env now ct) =
        concat (map (failTrace cfg env) [1..healthCheckRetries cfg])"
    by (simp add: performHealthCheck_def checkBeaconNodeHealth_def eq')
qed

lemma upto_1_2: "[1..2::int] = [1, 2]" by (simp add: upto_rec1)
lemma upto_1_3: "[1..3::int] = [1, 2, 3]" by (simp add: upto_rec1)

text \<open>
  The theorem at two runs with three attempts: a node that recovers at the third attempt,
  and a node that answers 404 and then refuses the connection twice.
\<close>

theorem checkBeaconNodeHealth_outcome_witness:
  "(hc_status (fst (performHealthCheck cfg3 envRecover 0 10075)) = HEALTHY \<and>
    snd (performHealthCheck cfg3 envRecover 0 10075) =
      [HealthGet 1, Delay 1000, HealthGet 2, Delay 1000, HealthGet 3, BlockGet 3]) \<and>
   (hc_status (fst (performHealthCheck cfg3 envDown 0 2013)) = UNHEALTHY \<and>
    map_option bs_error (hc_beaconStatus (fst (performHealthCheck cfg3 envDown 0 2013))) =
      Some (Some ''connect ECONNREFUSED'') \<and>
    snd (performHealthCheck cfg3 envDown 0 2013) =
      [HealthGet 1, HealthGet 2, Delay 1000, HealthGet 3])"
proof -
  have h1: "1 \<le> (3::int) \<and> 3 \<le> healthCheckRetries cfg3 \<and>
      (\<forall>i. 1 \<le> i \<and> i < 3 \<longrightarrow> attemptFails (envRecover i)) \<and>
      health (envRecover 3) = Reply 200 ''OK''"
    by (auto simp: cfg3_def envRecover_def attemptFails_def)
  have h2: "\<forall>i. 1 \<le> i \<and> i \<le> healthCheckRetries cfg3 \<longrightarrow> attemptFails (envDown i)"
    by (auto simp: cfg3_def envDown_def attemptFails_def)
  from checkBeaconNodeHealth_outcome [of 3 cfg3 envRecover "''OK''" 0 10075] h1
  have c1: "hc_status (fst (performHealthCheck cfg3 envRecover 0 10075)) = HEALTHY \<and>
      snd (performHealthCheck cfg3 envRecover 0 10075) =
        concat (map (failTrace cfg3 envRecover) [1..3 - 1]) @ [HealthGet 3, BlockGet 3]"
    by blast
  from checkBeaconNodeHealth_outcome [of 3 cfg3 envDown "''OK''" 0 2013] h2
  have c2: "hc_status (fst (performHealthCheck cfg3 envDown 0 2013)) = UNHEALTHY \<and>
      map_option bs_error (hc_beaconStatus (fst (performHealthCheck cfg3 envDown 0 2013))) =
        Some (Some (finalMessage
          (if 1 \<le> healthCheckRetries cfg3
           then Some (attemptError (envDown (healthCheckRetries cfg3))) else None))) \<and>
      snd (performHealthCheck cfg3 envDown 0 2013) =
        concat (map (failTrace cfg3 envDown) [1..healthCheckRetries cfg3])"
    by blast
  have t1: "concat (map (failTrace cfg3 envRecover) [1..2]) =
      [HealthGet 1, Delay 1000, HealthGet 2, Delay 1000]"
    by (simp add: upto_1_2 failTrace_def attemptThrows_def envRecover_def cfg3_def)
  have t2: "concat (map (failTrace cfg3 envDown) [1..healthCheckRetries cfg3]) =
      [HealthGet 1, HealthGet 2, Delay 1000, HealthGet 3]"
    by (simp add: upto_1_3 failTrace_def attemptThrows_def envDown_def cfg3_def)
  have m: "finalMessage
          (if 1 \<le> healthCheckRetries cfg3
           then Some (attemptError (envDown (healthCheckRetries cfg3))) else None) =
        ''connect ECONNREFUSED''"
    by (simp add: finalMessage_def attemptError_def envDown_def cfg3_def)
  show ?thesis using c1 c2 by (simp add: t1 t2 m)
qed

text \<open>
  C7 as stated fails: a node that answers 206 (a 2xx status) at every attempt is reported
  UNHEALTHY, and the three attempts follow each other without a pause.
\<close>

theorem checkBeaconNodeHealth_2xx_counterexample:
  "hc_status (fst (performHealthCheck cfg3 envPartial 0 36)) = UNHEALTHY \<and>
   snd (performHealthCheck cfg3 envPartial 0 36) = [HealthGet 1, HealthGet 2, HealthGet 3]"
  by (simp add: performHealthCheck_def checkBeaconNodeHealth_def checkLoop.simps axios_get_def
      cfg3_def envPartial_def)

subsection \<open>Peer consensus request\<close>

lemma findIndex_None: "findIndex P xs = None \<longleftrightarrow> (\<forall>x \<in> set xs. \<not> P x)"
  by (induction xs) auto

lemma findIndex_Some:
  "findIndex P xs = Some i \<Longrightarrow> i < length xs \<and> P (xs ! i) \<and> (\<forall>j < i. \<not> P (xs ! j))"
proof (induction xs arbitrary: i)
  case Nil
  then show ?case by simp
next
  case (Cons x xs)
  show ?case
  proof (cases "P x")
    case True
    with Cons.prems show ?thesis by simp
  next
    case False
    with Cons.prems obtain k where k: "findIndex P xs = Some k" "i = Suc k" by auto
    from Cons.IH [OF k(1)] False k(2) show ?thesis
      by (auto simp: nth_Cons split: nat.splits)
  qed
qed

lemma find_snoc:
  "find P (xs @ [y]) = (case find P xs of Some x \<Rightarrow> Some x | None \<Rightarrow> if P y then Some y else None)"
  by (induction xs) auto

text \<open>Looking an agent up in the array after the handler ran.\<close>

lemma find_handler:
  "find (\<lambda>x. cr_agentId x = a) (handler cid me rs r) =
     (if accepted cid me r \<and> cr_agentId r = a then Some r
      else find (\<lambda>x. cr_agentId x = a) rs)"
proof (cases "accepted cid me r")
  case False
  then show ?thesis by (auto simp: handler_def accepted_def)
next
  case True
  show ?thesis
  proof (cases "findIndex (\<lambda>res. cr_agentId res = cr_agentId r) rs")
    case None
    then have "\<forall>x \<in> set rs. cr_agentId x \<noteq> cr_agentId r" by (simp add: findIndex_None)
    then have "cr_agentId r = a \<Longrightarrow> find (\<lambda>x. cr_agentId x = a) rs = None"
      by (auto simp: find_None_iff)
    with True None show ?thesis
      by (auto simp: handler_def accepted_def find_snoc split: option.splits)
  next
    case (Some i)
    have upd: "find (\<lambda>x. cr_agentId x = a) (rs[i := r]) =
        (if cr_agentId r = a then Some r else find (\<lambda>x. cr_agentId x = a) rs)"
      using Some
    proof (induction rs arbitrary: i)
      case Nil
      then show ?case by simp
    next
      case (Cons x xs)
      show ?case
      proof (cases "cr_agentId x = cr_agentId r")
        case True
        with Cons.prems have "i = 0" by simp
        with True show ?thesis by auto
      next
        case False
        with Cons.prems obtain k where k: "findIndex (\<lambda>res. cr_agentId res = cr_agentId r) xs = Some k" "i = Suc k"
          by auto
        from Cons.IH [OF k(1)] False k(2) show ?thesis by auto
      qed
    qed
    with True Some show ?thesis by (simp add: handler_def accepted_def)
  qed
qed

lemma find_foldl_handler:
  "find (\<lambda>x. cr_agentId x = a) (foldl (handler cid me) [] rs) =
     lastOption (filter (\<lambda>r. accepted cid me r \<and> cr_agentId r = a) rs)"
proof (induction rs rule: rev_induct)
  case Nil
  show ?case by (simp add: lastOption_def)
next
  case (snoc r rs)
  then show ?case by (simp add: find_handler lastOption_def)
qed

lemma distinct_handler:
  "distinct (map cr_agentId rs) \<Longrightarrow> distinct (map cr_agentId (handler cid me rs r))"
proof (cases "findIndex (\<lambda>res. cr_agentId res = cr_agentId r) rs")
  case None
  assume d: "distinct (map cr_agentId rs)"
  from None have "\<forall>x \<in> set rs. cr_agentId x \<noteq> cr_agentId r" by (simp add: findIndex_None)
  with d None show ?thesis by (auto simp: handler_def)
next
  case (Some i)
  assume d: "distinct (map cr_agentId rs)"
  from findIndex_Some [OF Some] have i: "i < length rs" "cr_agentId (rs ! i) = cr_agentId r" by auto
  have "map cr_agentId (rs[i := r]) = (map cr_agentId rs)[i := cr_agentId (rs ! i)]"
    using i by (simp add: map_update)
  also have "\<dots> = map cr_agentId rs" using i by (simp add: list_update_same_conv)
  finally show ?thesis using d Some by (simp add: handler_def)
qed

lemma distinct_foldl_handler:
  "distinct (map cr_agentId (foldl (handler cid me) [] rs))"
proof (induction rs rule: rev_induct)
  case Nil
  show ?case by simp
next
  case (snoc r rs)
  then show ?case by (simp add: distinct_handler)
qed

lemma waited_append: "waited (xs @ ys) = waited xs + waited ys"
  by (induction xs rule: waited.induct) auto

lemma waited_broadcastRequest: "waited (broadcastRequest pn msg) = 0"
proof -
  have "waited (map (\<lambda>(k, peer). SendRequest (pi_id peer) msg) xs) = 0" for xs :: "(string \<times> PeerInfo) list"
    by (induction xs) auto
  then show ?thesis by (simp add: broadcastRequest_def)
qed

text \<open>
  C6. With no peer connected \<open>requestConsensus\<close> answers at once with the fresh
  identifier, no responses and both counts 0. Otherwise the time it spends waiting is
  the timeout, whatever the peers send; the responses it keeps hold at most one entry
  per \<open>agentId\<close>, and the entry of an agent is the last response of that agent with the
  right \<open>consensusId\<close> and \<open>requesterId\<close> among those raised before the timeout (a
  response raised at or after the timeout is not looked at); \<open>agreeCount\<close> is the number
  of kept responses with \<open>agree\<close> set.
\<close>

theorem requestConsensus_contract:
  "(pn_peers pn = [] \<longrightarrow>
      requestConsensus pn env request timeoutMs =
        (\<lparr> res_consensusId = we_uuid env, res_responses = [], res_agreeCount = 0,
            res_totalPeers = 0 \<rparr>, []))
   \<and> (pn_peers pn \<noteq> [] \<longrightarrow>
        waited (snd (requestConsensus pn env request timeoutMs)) = timeoutMs
      \<and> distinct (map cr_agentId (res_responses (fst (requestConsensus pn env request timeoutMs))))
      \<and> (\<forall>a. find (\<lambda>x. cr_agentId x = a)
                (res_responses (fst (requestConsensus pn env request timeoutMs))) =
              lastOption (filter (\<lambda>r. accepted (we_uuid env) (pn_agentId pn) r \<and> cr_agentId r = a)
                (map snd (filter (\<lambda>(t, r). t < timeoutMs) (we_arrivals env)))))
      \<and> res_agreeCount (fst (requestConsensus pn env request timeoutMs)) =
          int (length (filter cr_agree
            (res_responses (fst (requestConsensus pn env request timeoutMs))))))"
  by (simp add: requestConsensus_def Let_def waited_append waited_broadcastRequest
      distinct_foldl_handler find_foldl_handler inTime_def)

subsection \<open>Agent quorum rule\<close>

lemma posts_append: "posts (xs @ ys) = posts xs @ posts ys"
  by (induction xs rule: posts.induct) auto

lemma posts_Net: "posts (map Net xs) = []"
  by (induction xs) auto

text \<open>
  C3 (as amended). After an UNHEALTHY probe result the agent posts either nothing or one
  report, and the report is the UNHEALTHY one of its own probe: the agent id and API key
  of the configuration, the validator id of the result, status UNHEALTHY, and as message
  the error of the result or, without one, \<open>Validator is unhealthy\<close>. With P2P enabled, a
  peer network and a consensus result whose \<open>totalPeers\<close> is not 0, the report is posted
  exactly when the number of agreeing responses plus one reaches \<open>consensusThreshold\<close>,
  and nothing is posted otherwise. With P2P disabled, without a peer network, or when
  \<open>totalPeers\<close> is 0, the report is posted whatever the peers answered. \<open>totalPeers\<close> is 0
  when no peer is connected at the request, and otherwise the size of the peer map read
  when the wait ends, so peers that were asked and have left by then count as no peers.
\<close>

theorem handleHealthResult_quorum_rule:
  assumes "hc_status healthResult = UNHEALTHY"
  shows
   "(ac_p2pEnabled cfg \<and> sa_peerNetwork agent = Some pn \<and>
       res_totalPeers (fst (requestConsensus pn (ce_wait env)
          (consensusRequestFor cfg env healthResult) (ac_consensusTimeout cfg))) \<noteq> 0 \<longrightarrow>
       (posts (snd (handleHealthResult cfg agent env healthResult)) =
            (if int (length (filter cr_agree (res_responses (fst (requestConsensus pn (ce_wait env)
                  (consensusRequestFor cfg env healthResult) (ac_consensusTimeout cfg)))))) + 1
                 \<ge> ac_consensusThreshold cfg
             then [\<lparr> rp_agentId = ac_agentId cfg,
                     rp_validatorId = hc_validatorId healthResult,
                     rp_status = UNHEALTHY,
                     rp_message =
                       (case hc_error healthResult of
                          None \<Rightarrow> ''Validator is unhealthy''
                        | Some er \<Rightarrow> if er = [] then ''Validator is unhealthy'' else er),
                     rp_agentApiKey = ac_agentApiKey cfg \<rparr>]
             else [])))
    \<and> ((\<not> ac_p2pEnabled cfg \<or> sa_peerNetwork agent = None \<or>
         (sa_peerNetwork agent = Some pn \<and>
          res_totalPeers (fst (requestConsensus pn (ce_wait env)
            (consensusRequestFor cfg env healthResult) (ac_consensusTimeout cfg))) = 0)) \<longrightarrow>
        posts (snd (handleHealthResult cfg agent env healthResult)) =
          [\<lparr> rp_agentId = ac_agentId cfg,
              rp_validatorId = hc_validatorId healthResult,
              rp_status = UNHEALTHY,
              rp_message =
                (case hc_error healthResult of
                   None \<Rightarrow> ''Validator is unhealthy''
                 | Some er \<Rightarrow> if er = [] then ''Validator is unhealthy'' else er),
              rp_agentApiKey = ac_agentApiKey cfg \<rparr>])
    \<and> res_totalPeers (fst (requestConsensus pn (ce_wait env)
          (consensusRequestFor cfg env healthResult) (ac_consensusTimeout cfg))) =
        (if pn_peers pn = [] then 0 else int (length (we_peersAfter (ce_wait env))))"
proof -
  have agree: "res_agreeCount (fst (requestConsensus p e r t)) =
      int (length (filter cr_agree (res_responses (fst (requestConsensus p e r t)))))" for p e r t
    by (simp add: requestConsensus_def Let_def)
  have payload: "reportPayloadFor cfg healthResult =
      \<lparr> rp_agentId = ac_agentId cfg,
        rp_validatorId = hc_validatorId healthResult,
        rp_status = UNHEALTHY,
        rp_message =
          (case hc_error healthResult of
             None \<Rightarrow> ''Validator is unhealthy''
           | Some er \<Rightarrow> if er = [] then ''Validator is unhealthy'' else er),
        rp_agentApiKey = ac_agentApiKey cfg \<rparr>"
    using assms by (simp add: reportPayloadFor_def statusLower_def split: option.splits)
  have total: "res_totalPeers (fst (requestConsensus pn (ce_wait env)
          (consensusRequestFor cfg env healthResult) (ac_consensusTimeout cfg))) =
        (if pn_peers pn = [] then 0 else int (length (we_peersAfter (ce_wait env))))"
    by (simp add: requestConsensus_def Let_def)
  have rule: "(ac_p2pEnabled cfg \<and> sa_peerNetwork agent = Some pn \<and>
       res_totalPeers (fst (requestConsensus pn (ce_wait env)
          (consensusRequestFor cfg env healthResult) (ac_consensusTimeout cfg))) \<noteq> 0 \<longrightarrow>
       (posts (snd (handleHealthResult cfg agent env healthResult)) =
            (if int (length (filter cr_agree (res_responses (fst (requestConsensus pn (ce_wait env)
                  (consensusRequestFor cfg env healthResult) (ac_consensusTimeout cfg)))))) + 1
                 \<ge> ac_consensusThreshold cfg
             then [reportPayloadFor cfg healthResult] else [])))
    \<and> ((\<not> ac_p2pEnabled cfg \<or> sa_peerNetwork agent = None \<or>
         (sa_peerNetwork agent = Some pn \<and>
          res_totalPeers (fst (requestConsensus pn (ce_wait env)
            (consensusRequestFor cfg env healthResult) (ac_consensusTimeout cfg))) = 0)) \<longrightarrow>
        posts (snd (handleHealthResult cfg agent env healthResult)) =
          [reportPayloadFor cfg healthResult])"
    using assms
    by (auto simp: handleHealthResult_def confirmUnhealthyWithPeers_def sendHealthReport_def
        Let_def case_prod_beta posts_append posts_Net agree split: option.splits)
  from rule total show ?thesis unfolding payload by blast
qed

subsection \<open>Aggregator: how one report changes alerts and windows\<close>

lemma triggerOne_frame:
  "w_alerts (triggerOne e ev w h) = w_alerts w"
  "w_activeConsensus (triggerOne e ev w h) = w_activeConsensus w"
  "w_agentReports (triggerOne e ev w h) = w_agentReports w"
  "w_agents (triggerOne e ev w h) = w_agents w"
  "w_validators (triggerOne e ev w h) = w_validators w"
  "w_wsOut (triggerOne e ev w h) = w_wsOut w"
  "w_reportHistory (triggerOne e ev w h) = w_reportHistory w"
  "w_consensusThreshold (triggerOne e ev w h) = w_consensusThreshold w"
  by (simp_all add: triggerOne_def consoleError_def split: option.splits)

lemma foldl_triggerOne_frame:
  "w_alerts (foldl (triggerOne e ev) w hs) = w_alerts w"
  "w_activeConsensus (foldl (triggerOne e ev) w hs) = w_activeConsensus w"
  "w_agentReports (foldl (triggerOne e ev) w hs) = w_agentReports w"
  "w_agents (foldl (triggerOne e ev) w hs) = w_agents w"
  "w_validators (foldl (triggerOne e ev) w hs) = w_validators w"
  "w_wsOut (foldl (triggerOne e ev) w hs) = w_wsOut w"
  "w_reportHistory (foldl (triggerOne e ev) w hs) = w_reportHistory w"
  "w_consensusThreshold (foldl (triggerOne e ev) w hs) = w_consensusThreshold w"
  by (induction hs arbitrary: w; simp add: triggerOne_frame)+

lemma triggerWebhooks_frame:
  "fst (triggerWebhooks e u ev w) = Inr ()"
  "w_alerts (snd (triggerWebhooks e u ev w)) = w_alerts w"
  "w_activeConsensus (snd (triggerWebhooks e u ev w)) = w_activeConsensus w"
  "w_agentReports (snd (triggerWebhooks e u ev w)) = w_agentReports w"
  "w_agents (snd (triggerWebhooks e u ev w)) = w_agents w"
  "w_validators (snd (triggerWebhooks e u ev w)) = w_validators w"
  "w_wsOut (snd (triggerWebhooks e u ev w)) = w_wsOut w"
  "w_reportHistory (snd (triggerWebhooks e u ev w)) = w_reportHistory w"
  "w_consensusThreshold (snd (triggerWebhooks e u ev w)) = w_consensusThreshold w"
  by (simp_all add: triggerWebhooks_def consoleError_def foldl_triggerOne_frame split: sum.splits)

text \<open>What \<open>reachConsensus_try\<close> does to the alert table.\<close>

lemma reachConsensus_try_alerts:
  "w_alerts (snd (reachConsensus_try e key w)) =
     (case getWindow w key of
        None \<Rightarrow> w_alerts w
      | Some c \<Rightarrow>
          if ValidatorFindUnique \<in> e_faults e \<or> AlertCreate \<in> e_faults e then w_alerts w
          else (case find (\<lambda>v. va_id v = cd_validatorId c) (w_validators w) of
                  None \<Rightarrow> w_alerts w
                | Some v \<Rightarrow> w_alerts w @ [alertFor e c v]))"
  by (simp add: reachConsensus_try_def prisma_validator_findUnique_def prisma_alert_create_def
      prisma_agentReport_updateMany_def consoleError_def broadcast_def Let_def alertFor_def
      triggerWebhooks_frame split: option.splits sum.splits prod.splits)

lemma reachConsensus_try_frame:
  "w_activeConsensus (snd (reachConsensus_try e key w)) = w_activeConsensus w"
  "w_agents (snd (reachConsensus_try e key w)) = w_agents w"
  "w_validators (snd (reachConsensus_try e key w)) = w_validators w"
  "w_reportHistory (snd (reachConsensus_try e key w)) = w_reportHistory w"
  "w_consensusThreshold (snd (reachConsensus_try e key w)) = w_consensusThreshold w"
  by (simp_all add: reachConsensus_try_def prisma_validator_findUnique_def prisma_alert_create_def
      prisma_agentReport_updateMany_def consoleError_def broadcast_def Let_def
      triggerWebhooks_frame split: option.splits sum.splits prod.splits)


lemma getWindow_modifyWindow:
  "getWindow (modifyWindow key f w) k =
     (if k = key then map_option f (getWindow w key) else getWindow w k)"
proof -
  have "map_of (map (\<lambda>(k', c). if k' = key then (k', f c) else (k', c)) xs) k =
        (if k = key then map_option f (map_of xs key) else map_of xs k)" for xs
    by (induction xs) auto
  then show ?thesis by (simp add: getWindow_def modifyWindow_def)
qed

lemma modifyWindow_frame:
  "w_alerts (modifyWindow key f w) = w_alerts w"
  "w_validators (modifyWindow key f w) = w_validators w"
  "w_agents (modifyWindow key f w) = w_agents w"
  "w_agentReports (modifyWindow key f w) = w_agentReports w"
  "w_consensusThreshold (modifyWindow key f w) = w_consensusThreshold w"
  by (simp_all add: modifyWindow_def)

lemma getWindow_cong:
  "w_activeConsensus w' = w_activeConsensus w \<Longrightarrow> getWindow w' k = getWindow w k"
  by (simp add: getWindow_def)

lemma reachConsensus_ok: "fst (reachConsensus e key w) = Inr ()"
  by (simp add: reachConsensus_def Let_def split: prod.splits sum.splits)

lemma reachConsensus_alerts:
  "w_alerts (snd (reachConsensus e key w)) =
     (case getWindow w key of
        None \<Rightarrow> w_alerts w
      | Some c \<Rightarrow>
          if ValidatorFindUnique \<in> e_faults e \<or> AlertCreate \<in> e_faults e then w_alerts w
          else (case find (\<lambda>v. va_id v = cd_validatorId c) (w_validators w) of
                  None \<Rightarrow> w_alerts w
                | Some v \<Rightarrow> w_alerts w @ [alertFor e c v]))"
proof -
  let ?w0 = "modifyWindow key (\<lambda>c. c\<lparr> cd_consensusReached := True \<rparr>) w"
  have "w_alerts (snd (reachConsensus e key w)) = w_alerts (snd (reachConsensus_try e key ?w0))"
    by (simp add: reachConsensus_def Let_def consoleError_def split: prod.splits sum.splits)
  then show ?thesis
    by (simp add: reachConsensus_try_alerts getWindow_modifyWindow modifyWindow_frame alertFor_def
        split: option.splits)
qed

lemma reachConsensus_window:
  "getWindow (snd (reachConsensus e key w)) k =
     (if k = key then map_option (\<lambda>c. c\<lparr> cd_consensusReached := True \<rparr>) (getWindow w key)
      else getWindow w k)"
proof -
  let ?w0 = "modifyWindow key (\<lambda>c. c\<lparr> cd_consensusReached := True \<rparr>) w"
  have "w_activeConsensus (snd (reachConsensus e key w)) = w_activeConsensus ?w0"
    by (simp add: reachConsensus_def Let_def consoleError_def split_beta reachConsensus_try_frame
        split: sum.splits)
  then have "getWindow (snd (reachConsensus e key w)) k = getWindow ?w0 k"
    by (rule getWindow_cong)
  then show ?thesis by (simp add: getWindow_modifyWindow)
qed

lemma reachConsensus_frame:
  "w_validators (snd (reachConsensus e key w)) = w_validators w"
  "w_consensusThreshold (snd (reachConsensus e key w)) = w_consensusThreshold w"
  by (simp_all add: reachConsensus_def Let_def consoleError_def split_beta reachConsensus_try_frame
      modifyWindow_frame split: sum.splits)


lemma broadcast_frame:
  "w_alerts (broadcast m w) = w_alerts w"
  "w_validators (broadcast m w) = w_validators w"
  "w_activeConsensus (broadcast m w) = w_activeConsensus w"
  "w_consensusThreshold (broadcast m w) = w_consensusThreshold w"
  "w_agents (broadcast m w) = w_agents w"
  "w_agentReports (broadcast m w) = w_agentReports w"
  by (simp_all add: broadcast_def)

lemma getWindow_broadcast: "getWindow (broadcast m w) k = getWindow w k"
  by (simp add: getWindow_def broadcast_frame)

lemma addReportToConsensus_Some:
  assumes "getWindow w key = Some c"
  shows "fst (addReportToConsensus e key r w) = Inr ()"
    and "w_alerts (snd (addReportToConsensus e key r w)) =
          (if (unhealthyCount (afterAdd c r) \<ge> cd_threshold c \<and> \<not> cd_consensusReached c)
              \<and> ValidatorFindUnique \<notin> e_faults e \<and> AlertCreate \<notin> e_faults e
           then (case find (\<lambda>v. va_id v = cd_validatorId c) (w_validators w) of
                   None \<Rightarrow> w_alerts w
                 | Some v \<Rightarrow> w_alerts w @ [alertFor e (afterAdd c r) v])
           else w_alerts w)"
    and "getWindow (snd (addReportToConsensus e key r w)) key =
          Some (if unhealthyCount (afterAdd c r) \<ge> cd_threshold c \<and> \<not> cd_consensusReached c
                then (afterAdd c r)\<lparr> cd_consensusReached := True \<rparr> else afterAdd c r)"
    and "w_validators (snd (addReportToConsensus e key r w)) = w_validators w"
    and "w_consensusThreshold (snd (addReportToConsensus e key r w)) = w_consensusThreshold w"
proof -
  let ?w1 = "modifyWindow key (\<lambda>c'. c'\<lparr> cd_reports := upsertReport r (cd_reports c) \<rparr>) w"
  let ?cross = "unhealthyCount (afterAdd c r) \<ge> cd_threshold c \<and> \<not> cd_consensusReached c"
  have g1: "getWindow ?w1 key = Some (afterAdd c r)"
    using assms by (simp add: getWindow_modifyWindow afterAdd_def)
  have eq: "addReportToConsensus e key r w =
      (if ?cross then
         (Inr (), broadcast (ValidatorUpdate (cd_validatorId c) ''consensus_update''
             (ConsensusProgress (length (upsertReport r (cd_reports c)))
                (length (filter (\<lambda>r. ar_status r = RS_UNHEALTHY) (upsertReport r (cd_reports c))))
                (cd_threshold c)
                (case getWindow (snd (reachConsensus e key ?w1)) key of
                   Some c' \<Rightarrow> cd_consensusReached c' | None \<Rightarrow> cd_consensusReached c)))
             (snd (reachConsensus e key ?w1)))
       else
         (Inr (), broadcast (ValidatorUpdate (cd_validatorId c) ''consensus_update''
             (ConsensusProgress (length (upsertReport r (cd_reports c)))
                (length (filter (\<lambda>r. ar_status r = RS_UNHEALTHY) (upsertReport r (cd_reports c))))
                (cd_threshold c)
                (case getWindow ?w1 key of
                   Some c' \<Rightarrow> cd_consensusReached c' | None \<Rightarrow> cd_consensusReached c)))
             ?w1))"
    using assms reachConsensus_ok [of e key ?w1]
    by (cases "reachConsensus e key ?w1")
       (simp add: addReportToConsensus_def Let_def unhealthyCount_def afterAdd_def)
  show "fst (addReportToConsensus e key r w) = Inr ()"
    by (simp add: eq)
  show "w_alerts (snd (addReportToConsensus e key r w)) =
          (if ?cross \<and> ValidatorFindUnique \<notin> e_faults e \<and> AlertCreate \<notin> e_faults e
           then (case find (\<lambda>v. va_id v = cd_validatorId c) (w_validators w) of
                   None \<Rightarrow> w_alerts w
                 | Some v \<Rightarrow> w_alerts w @ [alertFor e (afterAdd c r) v])
           else w_alerts w)"
    by (simp add: eq broadcast_frame reachConsensus_alerts g1 modifyWindow_frame afterAdd_def
        alertFor_def split: option.splits)
  show "getWindow (snd (addReportToConsensus e key r w)) key =
          Some (if ?cross then (afterAdd c r)\<lparr> cd_consensusReached := True \<rparr> else afterAdd c r)"
    by (simp add: eq getWindow_broadcast reachConsensus_window g1 afterAdd_def)
  show "w_validators (snd (addReportToConsensus e key r w)) = w_validators w"
    by (simp add: eq broadcast_frame reachConsensus_frame modifyWindow_frame)
  show "w_consensusThreshold (snd (addReportToConsensus e key r w)) = w_consensusThreshold w"
    by (simp add: eq broadcast_frame reachConsensus_frame modifyWindow_frame)
qed


lemma upsertReport_self: "upsertReport r [r] = [r]"
  by (simp add: upsertReport_def)

lemma initiateConsensus_unhealthy:
  assumes "ar_validatorId r = Some v" and "v \<noteq> []"
  shows "fst (initiateConsensus e r w) = Inr () \<and>
     w_alerts (snd (initiateConsensus e r w)) =
          (if quorumEvent w r v \<and> ValidatorFindUnique \<notin> e_faults e \<and> AlertCreate \<notin> e_faults e
           then (case find (\<lambda>x. va_id x = cd_validatorId (windowAfter w r v)) (w_validators w) of
                   None \<Rightarrow> w_alerts w
                 | Some x \<Rightarrow> w_alerts w @ [alertFor e (windowAfter w r v) x])
           else w_alerts w) \<and>
     getWindow (snd (initiateConsensus e r w)) (consensusKey v) =
          Some (if quorumEvent w r v then (windowAfter w r v)\<lparr> cd_consensusReached := True \<rparr>
                else windowAfter w r v) \<and>
     w_validators (snd (initiateConsensus e r w)) = w_validators w \<and>
     w_consensusThreshold (snd (initiateConsensus e r w)) = w_consensusThreshold w"
proof (cases "getWindow w (consensusKey v)")
  case (Some c)
  let ?key = "consensusKey v"
  have eq: "initiateConsensus e r w = addReportToConsensus e ?key r w"
    using assms Some by (simp add: initiateConsensus_def Let_def)
  have wa: "windowAfter w r v = afterAdd c r"
    using Some by (simp add: windowAfter_def)
  have qe: "quorumEvent w r v \<longleftrightarrow>
      unhealthyCount (afterAdd c r) \<ge> cd_threshold c \<and> \<not> cd_consensusReached c"
    by (simp add: quorumEvent_def wa) (simp add: afterAdd_def)
  have vid: "cd_validatorId (afterAdd c r) = cd_validatorId c"
    by (simp add: afterAdd_def)
  note facts = addReportToConsensus_Some [OF Some, of e r]
  show ?thesis
    unfolding eq facts wa qe vid by simp
next
  case None
  let ?key = "consensusKey v"
  let ?c0 = "\<lparr> cd_validatorId = v, cd_status = RS_UNHEALTHY, cd_reports = [r],
               cd_consensusReached = False, cd_threshold = w_consensusThreshold w \<rparr>"
  let ?w1 = "w\<lparr> w_activeConsensus := w_activeConsensus w @ [(?key, ?c0)] \<rparr>"
  have eq: "initiateConsensus e r w = addReportToConsensus e ?key r ?w1"
    using assms None by (simp add: initiateConsensus_def Let_def)
  have g1: "getWindow ?w1 ?key = Some ?c0"
    using None by (simp add: getWindow_def map_add_def)
  have wa: "windowAfter w r v = ?c0"
    using None by (simp add: windowAfter_def)
  have aa: "afterAdd ?c0 r = ?c0"
    by (simp add: afterAdd_def upsertReport_self)
  have qe: "quorumEvent w r v \<longleftrightarrow>
      unhealthyCount ?c0 \<ge> w_consensusThreshold w"
    by (simp add: quorumEvent_def wa)
  note facts = addReportToConsensus_Some [OF g1, of e r, unfolded aa]
  show ?thesis
    unfolding eq facts wa qe by (simp split: option.splits)
qed


lemma prisma_agent_update_fst:
  "fst (prisma_agent_update e a w) = Inr () \<longleftrightarrow> agentUpdateOk e a w"
  by (simp add: prisma_agent_update_def agentUpdateOk_def)

lemma prisma_agent_update_cases:
  obtains (fails) err where "prisma_agent_update e a w = (Inl err, w)" "\<not> agentUpdateOk e a w"
  | (ok) "prisma_agent_update e a w =
        (Inr (), w\<lparr> w_agents :=
           map (\<lambda>x. if ag_id x = a then x\<lparr> ag_lastSeen := Some (e_now e) \<rparr> else x) (w_agents w) \<rparr>)"
      "agentUpdateOk e a w"
proof (cases "agentUpdateOk e a w")
  case True
  then show ?thesis by (intro ok) (simp_all add: prisma_agent_update_def agentUpdateOk_def)
next
  case False
  then have "\<exists>err. prisma_agent_update e a w = (Inl err, w)"
    by (auto simp: prisma_agent_update_def agentUpdateOk_def)
  with False show ?thesis using fails by blast
qed

lemma agents_update_irrelevant:
  "getWindow (w\<lparr> w_agents := ags \<rparr>) k = getWindow w k"
  "windowAfter (w\<lparr> w_agents := ags \<rparr>) r v = windowAfter w r v"
  "quorumEvent (w\<lparr> w_agents := ags \<rparr>) r v = quorumEvent w r v"
  "latched (w\<lparr> w_agents := ags \<rparr>) v = latched w v"
  by (simp_all add: getWindow_def windowAfter_def quorumEvent_def latched_def
      cong: option.case_cong)

lemma addToReportHistory_frame:
  "w_alerts (addToReportHistory e a w) = w_alerts w"
  "w_activeConsensus (addToReportHistory e a w) = w_activeConsensus w"
  "w_agentReports (addToReportHistory e a w) = w_agentReports w"
  "w_agents (addToReportHistory e a w) = w_agents w"
  "w_validators (addToReportHistory e a w) = w_validators w"
  "w_wsOut (addToReportHistory e a w) = w_wsOut w"
  "w_webhookOut (addToReportHistory e a w) = w_webhookOut w"
  "w_console (addToReportHistory e a w) = w_console w"
  "w_consensusThreshold (addToReportHistory e a w) = w_consensusThreshold w"
  by (simp_all add: addToReportHistory_def Let_def)

lemma consoleError_frame:
  "w_alerts (consoleError l w) = w_alerts w"
  "w_activeConsensus (consoleError l w) = w_activeConsensus w"
  "w_agentReports (consoleError l w) = w_agentReports w"
  "w_agents (consoleError l w) = w_agents w"
  "w_validators (consoleError l w) = w_validators w"
  "w_wsOut (consoleError l w) = w_wsOut w"
  "w_webhookOut (consoleError l w) = w_webhookOut w"
  "w_reportHistory (consoleError l w) = w_reportHistory w"
  "w_consensusThreshold (consoleError l w) = w_consensusThreshold w"
  by (simp_all add: consoleError_def)

lemma latched_windowAfter: "cd_consensusReached (windowAfter w r v) = latched w v"
  by (simp add: windowAfter_def latched_def afterAdd_def split: option.splits)

lemma quorumEvent_not_latched: "quorumEvent w r v \<Longrightarrow> \<not> latched w v"
  by (simp add: quorumEvent_def latched_windowAfter)

lemma processReport_ok: "fst (processReport e r w) = Inr ()"
  by (simp add: processReport_def split: prod.splits sum.splits)

lemma processReport_unhealthy:
  assumes "unhealthyFor v r"
  shows "w_alerts (snd (processReport e r w)) =
     (if agentUpdateOk e (ar_agentId r) w \<and> quorumEvent w r v
           \<and> ValidatorFindUnique \<notin> e_faults e \<and> AlertCreate \<notin> e_faults e
      then (case find (\<lambda>x. va_id x = cd_validatorId (windowAfter w r v)) (w_validators w) of
              None \<Rightarrow> w_alerts w
            | Some x \<Rightarrow> w_alerts w @ [alertFor e (windowAfter w r v) x])
      else w_alerts w)
   \<and> latched (snd (processReport e r w)) v =
       (if agentUpdateOk e (ar_agentId r) w then quorumEvent w r v \<or> latched w v
        else latched w v)"
proof (cases e "ar_agentId r" w rule: prisma_agent_update_cases)
  case (fails err)
  then show ?thesis
    by (simp add: processReport_def processReport_try_def consoleError_frame latched_def
        getWindow_def)
next
  case ok
  let ?w1 = "w\<lparr> w_agents :=
           map (\<lambda>x. if ag_id x = ar_agentId r then x\<lparr> ag_lastSeen := Some (e_now e) \<rparr> else x)
             (w_agents w) \<rparr>"
  have v: "ar_validatorId r = Some v" "v \<noteq> []" "ar_status r = RS_UNHEALTHY"
    using assms by (simp_all add: unhealthyFor_def)
  note ic = initiateConsensus_unhealthy [OF v(1,2), of e ?w1, unfolded agents_update_irrelevant]
  note ic1 = ic [THEN conjunct1]
  note ic2 = ic [THEN conjunct2, THEN conjunct1]
  note ic3 = ic [THEN conjunct2, THEN conjunct2, THEN conjunct1]
  have eq: "snd (processReport e r w) =
      addToReportHistory e (ar_agentId r) (snd (initiateConsensus e r ?w1))"
    using ok v ic1
    by (cases "initiateConsensus e r ?w1") (simp add: processReport_def processReport_try_def)
  have l: "latched (snd (processReport e r w)) v =
      (case getWindow (snd (initiateConsensus e r ?w1)) (consensusKey v) of
         None \<Rightarrow> False | Some c \<Rightarrow> cd_consensusReached c)"
    by (simp add: eq latched_def getWindow_def addToReportHistory_frame)
  have a: "w_alerts (snd (processReport e r w)) = w_alerts (snd (initiateConsensus e r ?w1))"
    by (simp add: eq addToReportHistory_frame)
  show ?thesis
    unfolding l a ic2 ic3 using ok(2) by (simp add: latched_windowAfter cong: option.case_cong)
qed

lemma cancelConsensus_alerts:
  "w_alerts (snd (cancelConsensus e v w)) = w_alerts w"
  by (simp add: cancelConsensus_def Let_def prisma_agentReport_updateMany_def deleteWindow_def
      broadcast_def split: option.splits)

lemma processReport_not_unhealthy_alerts:
  assumes "ar_status r \<noteq> RS_UNHEALTHY"
  shows "w_alerts (snd (processReport e r w)) = w_alerts w"
proof (cases e "ar_agentId r" w rule: prisma_agent_update_cases)
  case (fails err)
  then show ?thesis
    by (simp add: processReport_def processReport_try_def consoleError_frame)
next
  case ok
  then show ?thesis
    using assms cancelConsensus_alerts
    by (simp add: processReport_def processReport_try_def consoleError_frame
        addToReportHistory_frame split_beta split: sum.splits)
qed

subsection \<open>Aggregator: one alert per window\<close>

lemmas collector_defs =
  reportHandler_def falsy_def text_of_def allowedStatuses_def statusOfString_def validatorOf_def
  serverError_def prisma_agent_findUnique_def prisma_agent_update_def
  prisma_validator_findUnique_def prisma_alert_create_def prisma_agentReport_create_def
  prisma_agentReport_updateMany_def prisma_webhookConfig_findMany_def broadcast_def
  consoleError_def consensusKey_def getWindow_def modifyWindow_def deleteWindow_def
  triggerOne_def triggerWebhooks_def reachConsensus_try_def reachConsensus_def
  upsertReport_def addReportToConsensus_def initiateConsensus_def cancelConsensus_def
  addToReportHistory_def processReport_try_def processReport_def cleanupEntry_def
  cleanupOldConsensus_def envAt_def requestOf_def reportOf_def Let_def

lemma processReport_step_alerts:
  assumes "unhealthyFor v r"
  shows "(w_alerts (snd (processReport e r w)) = w_alerts w
          \<or> (\<exists>a. w_alerts (snd (processReport e r w)) = w_alerts w @ [a] \<and> al_status a = PENDING
                \<and> quorumEvent w r v \<and> latched (snd (processReport e r w)) v))
       \<and> (latched w v \<longrightarrow>
            w_alerts (snd (processReport e r w)) = w_alerts w \<and> latched (snd (processReport e r w)) v)"
proof -
  note pr = processReport_unhealthy [OF assms, of e w]
  note a = pr [THEN conjunct1]
  note l = pr [THEN conjunct2]
  have 1: "latched w v \<Longrightarrow> \<not> quorumEvent w r v" using quorumEvent_not_latched by blast
  have 2: "al_status (alertFor e c x) = PENDING" for c x by (simp add: alertFor_def)
  show ?thesis
    unfolding a l using 1 2 by (auto split: option.splits)
qed

lemma processAll_alerts:
  assumes "\<forall>(e, r) \<in> set steps. unhealthyFor v r"
  shows "length (w_alerts (processAll steps w)) \<le> length (w_alerts w) + 1
       \<and> (latched w v \<longrightarrow> w_alerts (processAll steps w) = w_alerts w)"
  using assms
proof (induction steps arbitrary: w)
  case Nil
  show ?case by simp
next
  case (Cons step steps)
  obtain e r where step: "step = (e, r)" by (cases step)
  have u: "unhealthyFor v r" using Cons.prems step by simp
  have rest: "\<forall>(e, r) \<in> set steps. unhealthyFor v r" using Cons.prems by simp
  let ?w' = "snd (processReport e r w)"
  note ih = Cons.IH [OF rest, of ?w']
  note st = processReport_step_alerts [OF u, of e w]
  show ?case
  proof (cases "latched w v")
    case True
    with st have "w_alerts ?w' = w_alerts w" "latched ?w' v" by simp_all
    with ih show ?thesis by (simp add: step)
  next
    case False
    from st consider "w_alerts ?w' = w_alerts w"
      | a where "w_alerts ?w' = w_alerts w @ [a]" "latched ?w' v" by blast
    then show ?thesis
    proof cases
      case 1
      with ih False show ?thesis by (simp add: step)
    next
      case 2
      with ih False show ?thesis by (simp add: step)
    qed
  qed
qed

text \<open>
  C2 (as amended). For the reports the aggregator processes for one validator: a report
  adds at most one alert, and only at a quorum event; a quorum event sets the latch
  \<open>consensusReached\<close> of the window, and a latched window admits no further quorum event:
  an UNHEALTHY report then adds no alert and the latch stays. A quorum event adds
  exactly one PENDING alert when the update of the agent, the lookup of the validator
  and the insert of the alert succeed and the validator row exists, whatever happens to
  the later rewrite of the stored reports and to the webhooks. It adds no alert, and
  still sets the latch, when the lookup of the validator or the insert of the alert
  throws or the validator row does not exist. When the update of the agent fails the
  report never reaches the window: no alert is added and the latch is as before. Over
  any run of UNHEALTHY reports for the validator at most one alert is added, none when
  the window was latched at the start.
\<close>

theorem quorum_alert_at_most_once:
  "(unhealthyFor v r \<longrightarrow>
      (w_alerts (snd (processReport e r w)) = w_alerts w
        \<or> (\<exists>a. w_alerts (snd (processReport e r w)) = w_alerts w @ [a] \<and> al_status a = PENDING
              \<and> quorumEvent w r v \<and> latched (snd (processReport e r w)) v))
      \<and> (latched w v \<longrightarrow>
            \<not> quorumEvent w r v
            \<and> w_alerts (snd (processReport e r w)) = w_alerts w \<and> latched (snd (processReport e r w)) v)
      \<and> (quorumEvent w r v \<and> agentUpdateOk e (ar_agentId r) w \<longrightarrow>
            latched (snd (processReport e r w)) v)
      \<and> (quorumEvent w r v \<and> agentUpdateOk e (ar_agentId r) w
            \<and> ValidatorFindUnique \<notin> e_faults e \<and> AlertCreate \<notin> e_faults e
            \<and> find (\<lambda>x. va_id x = cd_validatorId (windowAfter w r v)) (w_validators w) = Some x
          \<longrightarrow> w_alerts (snd (processReport e r w)) = w_alerts w @ [alertFor e (windowAfter w r v) x])
      \<and> (quorumEvent w r v \<and> agentUpdateOk e (ar_agentId r) w
            \<and> (ValidatorFindUnique \<in> e_faults e \<or> AlertCreate \<in> e_faults e
                \<or> find (\<lambda>x. va_id x = cd_validatorId (windowAfter w r v)) (w_validators w) = None)
          \<longrightarrow> w_alerts (snd (processReport e r w)) = w_alerts w
              \<and> latched (snd (processReport e r w)) v)
      \<and> (\<not> agentUpdateOk e (ar_agentId r) w
          \<longrightarrow> w_alerts (snd (processReport e r w)) = w_alerts w
              \<and> latched (snd (processReport e r w)) v = latched w v))
   \<and> ((\<forall>(e', r') \<in> set steps. unhealthyFor v r') \<longrightarrow>
        length (w_alerts (processAll steps w)) \<le> length (w_alerts w) + 1
        \<and> (latched w v \<longrightarrow> w_alerts (processAll steps w) = w_alerts w))"
proof (intro conjI impI)
  assume u: "unhealthyFor v r"
  note st = processReport_step_alerts [OF u, of e w]
  note pu = processReport_unhealthy [OF u, of e w]
  show "w_alerts (snd (processReport e r w)) = w_alerts w
        \<or> (\<exists>a. w_alerts (snd (processReport e r w)) = w_alerts w @ [a] \<and> al_status a = PENDING
              \<and> quorumEvent w r v \<and> latched (snd (processReport e r w)) v)"
    using st by blast
  show "\<not> quorumEvent w r v" if "latched w v"
    using that quorumEvent_not_latched by blast
  show "w_alerts (snd (processReport e r w)) = w_alerts w" if "latched w v"
    using st that by blast
  show "latched (snd (processReport e r w)) v" if "latched w v"
    using st that by blast
  show "latched (snd (processReport e r w)) v"
    if "quorumEvent w r v \<and> agentUpdateOk e (ar_agentId r) w"
    using that pu [THEN conjunct2] by simp
  show "w_alerts (snd (processReport e r w)) = w_alerts w @ [alertFor e (windowAfter w r v) x]"
    if "quorumEvent w r v \<and> agentUpdateOk e (ar_agentId r) w
            \<and> ValidatorFindUnique \<notin> e_faults e \<and> AlertCreate \<notin> e_faults e
            \<and> find (\<lambda>x. va_id x = cd_validatorId (windowAfter w r v)) (w_validators w) = Some x"
    using that pu [THEN conjunct1] by simp
  show "w_alerts (snd (processReport e r w)) = w_alerts w"
    if "quorumEvent w r v \<and> agentUpdateOk e (ar_agentId r) w
            \<and> (ValidatorFindUnique \<in> e_faults e \<or> AlertCreate \<in> e_faults e
                \<or> find (\<lambda>x. va_id x = cd_validatorId (windowAfter w r v)) (w_validators w) = None)"
    using that pu [THEN conjunct1] by auto
  show "latched (snd (processReport e r w)) v"
    if "quorumEvent w r v \<and> agentUpdateOk e (ar_agentId r) w
            \<and> (ValidatorFindUnique \<in> e_faults e \<or> AlertCreate \<in> e_faults e
                \<or> find (\<lambda>x. va_id x = cd_validatorId (windowAfter w r v)) (w_validators w) = None)"
    using that pu [THEN conjunct2] by simp
  show "w_alerts (snd (processReport e r w)) = w_alerts w"
    if "\<not> agentUpdateOk e (ar_agentId r) w"
    using that pu [THEN conjunct1] by simp
  show "latched (snd (processReport e r w)) v = latched w v"
    if "\<not> agentUpdateOk e (ar_agentId r) w"
    using that pu [THEN conjunct2] by simp
next
  assume a: "\<forall>(e', r') \<in> set steps. unhealthyFor v r'"
  note pa = processAll_alerts [OF a, of w]
  show "length (w_alerts (processAll steps w)) \<le> length (w_alerts w) + 1"
    using pa by blast
  show "w_alerts (processAll steps w) = w_alerts w" if "latched w v"
    using pa that by blast
qed


lemma aggOne_value:
  "aggOne =
     world0\<lparr> w_agents :=
         [\<lparr> ag_id = ''a1'', ag_apiKey = ''k1'', ag_isActive = True, ag_validatorId = Some ''v1'',
            ag_lastSeen = Some 0 \<rparr>,
          \<lparr> ag_id = ''a2'', ag_apiKey = ''k1'', ag_isActive = True, ag_validatorId = Some ''v1'',
            ag_lastSeen = None \<rparr>],
       w_activeConsensus :=
         [(''validator_v1'',
           \<lparr> cd_validatorId = ''v1'', cd_status = RS_UNHEALTHY,
             cd_reports = [reportOf ''r1'' ''a1'' ''v1'' RS_UNHEALTHY 0],
             cd_consensusReached = False, cd_threshold = 2 \<rparr>)],
       w_reportHistory := [(''a1'', [0])],
       w_wsOut := [ValidatorUpdate ''v1'' ''consensus_update'' (ConsensusProgress 1 1 2 False)] \<rparr>"
  unfolding aggOne_def world0_def stepOne_def
  by (simp add: collector_defs)

lemma aggTwo_step: "aggTwo = snd (processReport (fst (stepTwo {})) (snd (stepTwo {})) aggOne)"
  by (simp add: aggTwo_def aggOne_def stepOne_def stepTwo_def)

lemma aggTwo_value:
  "aggTwo =
     world0\<lparr> w_agents :=
         [\<lparr> ag_id = ''a1'', ag_apiKey = ''k1'', ag_isActive = True, ag_validatorId = Some ''v1'',
            ag_lastSeen = Some 0 \<rparr>,
          \<lparr> ag_id = ''a2'', ag_apiKey = ''k1'', ag_isActive = True, ag_validatorId = Some ''v1'',
            ag_lastSeen = Some 1000 \<rparr>],
       w_alerts :=
         [\<lparr> al_id = ''al1'', al_validatorId = ''v1'', al_userId = ''u1'',
            al_message = ''Validator node is unhealthy. Consensus reached with 2 agent reports.'',
            al_status = PENDING \<rparr>],
       w_activeConsensus :=
         [(''validator_v1'',
           \<lparr> cd_validatorId = ''v1'', cd_status = RS_UNHEALTHY,
             cd_reports = [reportOf ''r1'' ''a1'' ''v1'' RS_UNHEALTHY 0,
                           reportOf ''r2'' ''a2'' ''v1'' RS_UNHEALTHY 1000],
             cd_consensusReached = True, cd_threshold = 2 \<rparr>)],
       w_reportHistory := [(''a1'', [0]), (''a2'', [1000])],
       w_wsOut :=
         [ValidatorUpdate ''v1'' ''consensus_update'' (ConsensusProgress 1 1 2 False),
          ValidatorUpdate ''v1'' ''unhealthy'' (UnhealthyInfo ''al1'' True 2),
          AlertNotification
            \<lparr> al_id = ''al1'', al_validatorId = ''v1'', al_userId = ''u1'',
              al_message = ''Validator node is unhealthy. Consensus reached with 2 agent reports.'',
              al_status = PENDING \<rparr>,
          ValidatorUpdate ''v1'' ''consensus_update'' (ConsensusProgress 2 2 2 True)],
       w_webhookOut := [(''h1'', ''validator.unhealthy'', True)] \<rparr>"
  unfolding aggTwo_step aggOne_value world0_def stepTwo_def
  by (simp add: collector_defs show_nat.simps digit_char_def)


text \<open>
  The theorem at the second and third report of the sample run: the second one is the
  quorum event and adds the alert, also when the rewrite of the stored reports throws;
  it adds none and sets the latch when the insert of the alert throws, and adds none and
  leaves the window open when the update of the agent throws; the third report finds
  the window latched.
\<close>

theorem quorum_alert_at_most_once_witness:
  "w_alerts (snd (processReport (fst (stepTwo {})) (snd (stepTwo {})) aggOne)) =
     [\<lparr> al_id = ''al1'', al_validatorId = ''v1'', al_userId = ''u1'',
        al_message = ''Validator node is unhealthy. Consensus reached with 2 agent reports.'',
        al_status = PENDING \<rparr>]
   \<and> length (w_alerts (processAll [stepTwo {}, stepThree {}] aggOne)) \<le> 1
   \<and> latched aggTwo ''v1''
   \<and> w_alerts (snd (processReport (fst (stepThree {})) (snd (stepThree {})) aggTwo)) = w_alerts aggTwo
   \<and> latched (snd (processReport (fst (stepThree {})) (snd (stepThree {})) aggTwo)) ''v1''
   \<and> w_alerts (snd (processReport (fst (stepTwo {AgentReportUpdateMany}))
        (snd (stepTwo {AgentReportUpdateMany})) aggOne)) =
     [\<lparr> al_id = ''al1'', al_validatorId = ''v1'', al_userId = ''u1'',
        al_message = ''Validator node is unhealthy. Consensus reached with 2 agent reports.'',
        al_status = PENDING \<rparr>]
   \<and> w_alerts (snd (processReport (fst (stepTwo {AlertCreate})) (snd (stepTwo {AlertCreate})) aggOne)) = []
   \<and> latched (snd (processReport (fst (stepTwo {AlertCreate})) (snd (stepTwo {AlertCreate})) aggOne)) ''v1''
   \<and> w_alerts (snd (processReport (fst (stepTwo {AgentUpdate})) (snd (stepTwo {AgentUpdate})) aggOne)) = []
   \<and> \<not> latched (snd (processReport (fst (stepTwo {AgentUpdate})) (snd (stepTwo {AgentUpdate})) aggOne)) ''v1''"
proof -
  let ?x = "\<lparr> va_id = ''v1'', va_userId = ''u1'', va_name = ''node'', va_isActive = True \<rparr>"
  let ?e2 = "fst (stepTwo {})" and ?r2 = "snd (stepTwo {})"
  let ?e3 = "fst (stepThree {})" and ?r3 = "snd (stepThree {})"
  let ?eU = "fst (stepTwo {AgentReportUpdateMany})"
  let ?eA = "fst (stepTwo {AlertCreate})"
  let ?eG = "fst (stepTwo {AgentUpdate})"
  have r: "snd (stepTwo {AgentReportUpdateMany}) = ?r2" "snd (stepTwo {AlertCreate}) = ?r2"
    "snd (stepTwo {AgentUpdate}) = ?r2"
    by (simp_all add: stepTwo_def)
  have u2: "unhealthyFor ''v1'' ?r2" and u3: "unhealthyFor ''v1'' ?r3"
    by (simp_all add: unhealthyFor_def stepTwo_def stepThree_def reportOf_def)
  have wa: "windowAfter aggOne ?r2 ''v1'' =
      \<lparr> cd_validatorId = ''v1'', cd_status = RS_UNHEALTHY,
        cd_reports = [reportOf ''r1'' ''a1'' ''v1'' RS_UNHEALTHY 0,
                      reportOf ''r2'' ''a2'' ''v1'' RS_UNHEALTHY 1000],
        cd_consensusReached = False, cd_threshold = 2 \<rparr>"
    unfolding aggOne_value world0_def stepTwo_def
    by (simp add: windowAfter_def afterAdd_def getWindow_def consensusKey_def upsertReport_def
        reportOf_def)
  have q: "quorumEvent aggOne ?r2 ''v1''"
    unfolding quorumEvent_def wa by (simp add: unhealthyCount_def reportOf_def)
  have ok: "agentUpdateOk ?e2 (ar_agentId ?r2) aggOne"
    "agentUpdateOk ?eU (ar_agentId ?r2) aggOne"
    "agentUpdateOk ?eA (ar_agentId ?r2) aggOne"
    "\<not> agentUpdateOk ?eG (ar_agentId ?r2) aggOne"
    unfolding aggOne_value world0_def stepTwo_def
    by (simp_all add: agentUpdateOk_def envAt_def reportOf_def)
  have f: "ValidatorFindUnique \<notin> e_faults ?e2" "AlertCreate \<notin> e_faults ?e2"
    "ValidatorFindUnique \<notin> e_faults ?eU" "AlertCreate \<notin> e_faults ?eU"
    "AlertCreate \<in> e_faults ?eA"
    by (simp_all add: stepTwo_def envAt_def)
  have x: "find (\<lambda>x. va_id x = cd_validatorId (windowAfter aggOne ?r2 ''v1'')) (w_validators aggOne)
      = Some ?x"
    unfolding wa unfolding aggOne_value world0_def by simp
  have steps: "\<forall>(e', r') \<in> set [stepTwo {}, stepThree {}]. unhealthyFor ''v1'' r'"
    by (simp add: unhealthyFor_def stepTwo_def stepThree_def reportOf_def)
  have l: "latched aggTwo ''v1''"
    unfolding aggTwo_value world0_def by (simp add: latched_def getWindow_def consensusKey_def)
  have l1: "\<not> latched aggOne ''v1''"
    unfolding aggOne_value world0_def by (simp add: latched_def getWindow_def consensusKey_def)
  have al: "alertFor (fst (stepTwo F)) (windowAfter aggOne ?r2 ''v1'') ?x =
      \<lparr> al_id = ''al1'', al_validatorId = ''v1'', al_userId = ''u1'',
        al_message = ''Validator node is unhealthy. Consensus reached with 2 agent reports.'',
        al_status = PENDING \<rparr>" for F
    unfolding wa by (simp add: alertFor_def stepTwo_def envAt_def show_nat.simps digit_char_def)
  have a0: "w_alerts aggOne = []"
    unfolding aggOne_value world0_def by simp
  from quorum_alert_at_most_once [of "''v1''" ?r2 ?e2 aggOne ?x "[stepTwo {}, stepThree {}]"]
    u2 q ok(1) f(1,2) x steps
  have c1: "w_alerts (snd (processReport ?e2 ?r2 aggOne)) =
        w_alerts aggOne @ [alertFor ?e2 (windowAfter aggOne ?r2 ''v1'') ?x]"
    and c2: "length (w_alerts (processAll [stepTwo {}, stepThree {}] aggOne))
        \<le> length (w_alerts aggOne) + 1"
    by blast+
  from quorum_alert_at_most_once [of "''v1''" ?r3 ?e3 aggTwo ?x "[]"] u3 l
  have c3: "w_alerts (snd (processReport ?e3 ?r3 aggTwo)) = w_alerts aggTwo"
    and c4: "latched (snd (processReport ?e3 ?r3 aggTwo)) ''v1''"
    by blast+
  from quorum_alert_at_most_once [of "''v1''" ?r2 ?eU aggOne ?x "[]"] u2 q ok(2) f(3,4) x
  have c5: "w_alerts (snd (processReport ?eU ?r2 aggOne)) =
        w_alerts aggOne @ [alertFor ?eU (windowAfter aggOne ?r2 ''v1'') ?x]"
    by blast
  from quorum_alert_at_most_once [of "''v1''" ?r2 ?eA aggOne ?x "[]"] u2 q ok(3) f(5)
  have c6: "w_alerts (snd (processReport ?eA ?r2 aggOne)) = w_alerts aggOne"
    and c7: "latched (snd (processReport ?eA ?r2 aggOne)) ''v1''"
    by blast+
  from quorum_alert_at_most_once [of "''v1''" ?r2 ?eG aggOne ?x "[]"] u2 ok(4)
  have c8: "w_alerts (snd (processReport ?eG ?r2 aggOne)) = w_alerts aggOne"
    and c9: "latched (snd (processReport ?eG ?r2 aggOne)) ''v1'' = latched aggOne ''v1''"
    by blast+
  show ?thesis using c1 c2 c3 c4 c5 c6 c7 c8 c9 l l1 by (simp add: al a0 r)
qed

text \<open>
  C2 as stated fails: the second report is a quorum event and sets the latch, yet no
  alert exists afterwards, once because the validator row is missing and once because
  the insert of the alert throws.
\<close>

theorem quorum_without_alert_counterexample:
  "quorumEvent (processAll [stepOne {}] worldNoValidator) (snd (stepTwo {})) ''v1''
   \<and> latched (processAll [stepOne {}, stepTwo {}] worldNoValidator) ''v1''
   \<and> w_alerts (processAll [stepOne {}, stepTwo {}] worldNoValidator) = []
   \<and> quorumEvent aggOne (snd (stepTwo {AlertCreate})) ''v1''
   \<and> latched (processAll [stepTwo {AlertCreate}] aggOne) ''v1''
   \<and> w_alerts (processAll [stepTwo {AlertCreate}] aggOne) = []"
proof -
  have 1: "quorumEvent (processAll [stepOne {}] worldNoValidator) (snd (stepTwo {})) ''v1''"
    unfolding worldNoValidator_def world0_def stepOne_def stepTwo_def
    by (simp add: collector_defs quorumEvent_def windowAfter_def afterAdd_def unhealthyCount_def)
  have 2: "latched (processAll [stepOne {}, stepTwo {}] worldNoValidator) ''v1''
      \<and> w_alerts (processAll [stepOne {}, stepTwo {}] worldNoValidator) = []"
    unfolding worldNoValidator_def world0_def stepOne_def stepTwo_def
    by (simp add: collector_defs latched_def)
  have 3: "quorumEvent aggOne (snd (stepTwo {AlertCreate})) ''v1''"
    unfolding aggOne_value world0_def stepTwo_def
    by (simp add: collector_defs quorumEvent_def windowAfter_def afterAdd_def unhealthyCount_def)
  have 4: "latched (processAll [stepTwo {AlertCreate}] aggOne) ''v1''
      \<and> w_alerts (processAll [stepTwo {AlertCreate}] aggOne) = []"
    unfolding aggOne_value world0_def stepTwo_def
    by (simp add: collector_defs latched_def)
  from 1 2 3 4 show ?thesis by blast
qed

subsection \<open>Endpoint\<close>

lemma statusOfString_allowed:
  "s \<in> set allowedStatuses \<Longrightarrow> statusOfString s \<noteq> None"
  by (auto simp: allowedStatuses_def statusOfString_def)

lemma reportHandler_400:
  "\<not> wellFormed req \<Longrightarrow> hr_status (fst (reportHandler e req w)) = 400 \<and> snd (reportHandler e req w) = w"
  by (auto simp: wellFormed_def reportHandler_def)

lemma reportHandler_401:
  "wellFormed req \<Longrightarrow> AgentFindUnique \<notin> e_faults e \<Longrightarrow> \<not> authenticated w req \<Longrightarrow>
   hr_status (fst (reportHandler e req w)) = 401 \<and> snd (reportHandler e req w) = w"
  by (auto simp: wellFormed_def reportHandler_def authenticated_def agentOf_def
      prisma_agent_findUnique_def split: option.splits)

lemma reportHandler_403:
  "wellFormed req \<Longrightarrow> AgentFindUnique \<notin> e_faults e \<Longrightarrow> authenticated w req \<Longrightarrow> \<not> inScope w req \<Longrightarrow>
   hr_status (fst (reportHandler e req w)) = 403 \<and> snd (reportHandler e req w) = w"
  by (auto simp: wellFormed_def reportHandler_def authenticated_def inScope_def agentOf_def
      prisma_agent_findUnique_def split: option.splits)

text \<open>The state in which the handler calls the aggregator for an accepted request.\<close>

lemma reportHandler_accepts:
  assumes "wellFormed req" and "authenticated w req" and "inScope w req"
    and "AgentFindUnique \<notin> e_faults e" and "AgentReportCreate \<notin> e_faults e"
    and "AgentUpdate \<notin> e_faults e"
    and "statusOfString (text_of (rq_status req)) = Some st"
  shows "reportHandler e req w =
     (\<lparr> hr_status = 200, hr_body = ReportAccepted (e_newReportId e) \<rparr>,
      snd (processReport e
        \<lparr> ar_id = e_newReportId e, ar_agentId = text_of (rq_agentId req),
          ar_validatorId = Some (text_of (rq_validatorId req)), ar_status = st,
          ar_message = rq_message req, ar_signature = rq_signature req,
          ar_consensus = False, ar_createdAt = e_now e \<rparr>
        (w\<lparr> w_agentReports := w_agentReports w @
               [\<lparr> ar_id = e_newReportId e, ar_agentId = text_of (rq_agentId req),
                  ar_validatorId = Some (text_of (rq_validatorId req)), ar_status = st,
                  ar_message = rq_message req, ar_signature = rq_signature req,
                  ar_consensus = False, ar_createdAt = e_now e \<rparr>],
             w_agents := touchAgent e (text_of (rq_agentId req)) (w_agents w) \<rparr>)))"
proof -
  obtain a where a: "find (\<lambda>a. ag_id a = text_of (rq_agentId req)) (w_agents w) = Some a"
      "ag_isActive a" "ag_apiKey a = text_of (rq_agentApiKey req)"
    using assms(2) by (auto simp: authenticated_def agentOf_def split: option.splits)
  obtain v where v: "validatorOf w a = Some v" "va_id v = text_of (rq_validatorId req)" "va_isActive v"
    using assms(3) a(1) by (auto simp: inScope_def agentOf_def split: option.splits)
  let ?row = "\<lparr> ar_id = e_newReportId e, ar_agentId = text_of (rq_agentId req),
          ar_validatorId = Some (text_of (rq_validatorId req)), ar_status = st,
          ar_message = rq_message req, ar_signature = rq_signature req,
          ar_consensus = False, ar_createdAt = e_now e \<rparr>"
  let ?w2 = "w\<lparr> w_agentReports := w_agentReports w @ [?row],
             w_agents := touchAgent e (text_of (rq_agentId req)) (w_agents w) \<rparr>"
  have pr: "processReport e ?row ?w2 = (Inr (), snd (processReport e ?row ?w2))"
    using processReport_ok [of e ?row ?w2] by (cases "processReport e ?row ?w2") simp
  show ?thesis
    using assms(1,4,5,6,7) a v
    apply (simp add: reportHandler_def wellFormed_def prisma_agent_findUnique_def
        prisma_agentReport_create_def prisma_agent_update_def Let_def touchAgent_def)
    apply (subst pr [unfolded touchAgent_def])
    apply simp
    done
qed

lemma reportHandler_rejections_frame:
  "hr_status (fst (reportHandler e req w)) \<in> {400, 401, 403} \<Longrightarrow> snd (reportHandler e req w) = w"
  by (auto simp: reportHandler_def serverError_def Let_def
      split: option.splits sum.splits if_splits prod.splits)


lemma reportHandler_200:
  assumes "hr_status (fst (reportHandler e req w)) = 200"
  shows "wellFormed req \<and> authenticated w req \<and> inScope w req
       \<and> AgentFindUnique \<notin> e_faults e \<and> AgentReportCreate \<notin> e_faults e
       \<and> AgentUpdate \<notin> e_faults e"
proof -
  have wf: "wellFormed req"
    using assms reportHandler_400 [of req e w] by auto
  have f1: "AgentFindUnique \<notin> e_faults e"
    using assms wf
    by (auto simp: reportHandler_def wellFormed_def prisma_agent_findUnique_def serverError_def)
  have au: "authenticated w req"
    using assms reportHandler_401 [OF wf f1, of w] by auto
  have sc: "inScope w req"
    using assms reportHandler_403 [OF wf f1 au] by auto
  obtain a where a: "find (\<lambda>a. ag_id a = text_of (rq_agentId req)) (w_agents w) = Some a"
      "ag_isActive a" "ag_apiKey a = text_of (rq_agentApiKey req)"
    using au by (auto simp: authenticated_def agentOf_def split: option.splits)
  obtain v where v: "validatorOf w a = Some v" "va_id v = text_of (rq_validatorId req)" "va_isActive v"
    using sc a(1) by (auto simp: inScope_def agentOf_def split: option.splits)
  have f2: "AgentReportCreate \<notin> e_faults e"
    using assms wf f1 a v
    by (auto simp: reportHandler_def wellFormed_def prisma_agent_findUnique_def serverError_def
        prisma_agentReport_create_def split: option.splits)
  have f3: "AgentUpdate \<notin> e_faults e"
    using assms wf f1 f2 a v
    by (auto simp: reportHandler_def wellFormed_def prisma_agent_findUnique_def serverError_def
        prisma_agentReport_create_def prisma_agent_update_def Let_def split: option.splits)
  from wf au sc f1 f2 f3 show ?thesis by blast
qed

text \<open>
  C5. For every request to \<open>POST /api/report\<close>: a request with a required field missing
  (or empty) or with a status outside the four texts is answered 400; a well-formed
  request whose agent is unknown or inactive or whose key differs is answered 401; an
  authenticated request whose agent is registered for another validator, or whose
  validator is inactive, is answered 403; a request that passes all checks is answered
  200 with the id of the new report; and an answer 400, 401 or 403 leaves the whole
  state as it was (nothing persisted, no call of the aggregator, \<open>lastSeen\<close> untouched).
  The answers 401, 403 and 200 are those given when the storage calls of the handler
  do not throw; a throwing storage call is answered 500.
\<close>

theorem reportHandler_contract:
  "(\<not> wellFormed req \<longrightarrow> hr_status (fst (reportHandler e req w)) = 400)
   \<and> (wellFormed req \<and> AgentFindUnique \<notin> e_faults e \<and> \<not> authenticated w req \<longrightarrow>
        hr_status (fst (reportHandler e req w)) = 401)
   \<and> (wellFormed req \<and> AgentFindUnique \<notin> e_faults e \<and> authenticated w req \<and> \<not> inScope w req \<longrightarrow>
        hr_status (fst (reportHandler e req w)) = 403)
   \<and> (wellFormed req \<and> authenticated w req \<and> inScope w req
        \<and> AgentFindUnique \<notin> e_faults e \<and> AgentReportCreate \<notin> e_faults e
        \<and> AgentUpdate \<notin> e_faults e \<longrightarrow>
        fst (reportHandler e req w) =
          \<lparr> hr_status = 200, hr_body = ReportAccepted (e_newReportId e) \<rparr>)
   \<and> (hr_status (fst (reportHandler e req w)) \<in> {400, 401, 403} \<longrightarrow>
        snd (reportHandler e req w) = w)"
proof (intro conjI impI)
  show "hr_status (fst (reportHandler e req w)) = 400" if "\<not> wellFormed req"
    using that reportHandler_400 by blast
  show "hr_status (fst (reportHandler e req w)) = 401"
    if "wellFormed req \<and> AgentFindUnique \<notin> e_faults e \<and> \<not> authenticated w req"
    using that reportHandler_401 by blast
  show "hr_status (fst (reportHandler e req w)) = 403"
    if "wellFormed req \<and> AgentFindUnique \<notin> e_faults e \<and> authenticated w req \<and> \<not> inScope w req"
    using that reportHandler_403 by blast
  show "fst (reportHandler e req w) = \<lparr> hr_status = 200, hr_body = ReportAccepted (e_newReportId e) \<rparr>"
    if h: "wellFormed req \<and> authenticated w req \<and> inScope w req
        \<and> AgentFindUnique \<notin> e_faults e \<and> AgentReportCreate \<notin> e_faults e
        \<and> AgentUpdate \<notin> e_faults e"
  proof -
    from h have "text_of (rq_status req) \<in> set allowedStatuses" by (simp add: wellFormed_def)
    then obtain st where "statusOfString (text_of (rq_status req)) = Some st"
      using statusOfString_allowed by blast
    with h show ?thesis by (simp add: reportHandler_accepts)
  qed
  show "snd (reportHandler e req w) = w"
    if "hr_status (fst (reportHandler e req w)) \<in> {400, 401, 403}"
    using that by (rule reportHandler_rejections_frame)
qed


subsection \<open>Failures inside the aggregator\<close>

lemma initiateConsensus_no_validator:
  "ar_validatorId r = None \<or> ar_validatorId r = Some [] \<Longrightarrow> initiateConsensus e r w = (Inr (), w)"
  by (auto simp: initiateConsensus_def)

lemma processReport_alert_fault:
  assumes "AlertCreate \<in> e_faults e"
  shows "w_alerts (snd (processReport e r w)) = w_alerts w"
proof (cases "ar_status r = RS_UNHEALTHY")
  case False
  then show ?thesis by (rule processReport_not_unhealthy_alerts)
next
  case True
  show ?thesis
  proof (cases "ar_validatorId r = None \<or> ar_validatorId r = Some []")
    case False
    then obtain v where "ar_validatorId r = Some v" "v \<noteq> []" by auto
    with True have "unhealthyFor v r" by (simp add: unhealthyFor_def)
    from processReport_unhealthy [OF this, of e w, THEN conjunct1] assms
    show ?thesis by simp
  next
    case nv: True
    show ?thesis
    proof (cases e "ar_agentId r" w rule: prisma_agent_update_cases)
      case (fails err)
      then show ?thesis
        by (simp add: processReport_def processReport_try_def consoleError_frame)
    next
      case ok
      then show ?thesis
        using True initiateConsensus_no_validator [OF nv]
        by (simp add: processReport_def processReport_try_def addToReportHistory_frame)
    qed
  qed
qed

text \<open>
  C4 (as amended). \<open>reachConsensus\<close> and \<open>processReport\<close> always return normally: every
  failure inside them, of storage as of webhook delivery, is caught and written to the
  console. When the insert of the alert throws, no alert is created, the window keeps
  \<open>consensusReached\<close> set, and a request that passes the checks of the endpoint is still
  answered 200 with its report id.
\<close>

theorem aggregator_swallows_failures:
  "fst (reachConsensus e key w) = Inr ()
   \<and> fst (processReport e r w) = Inr ()
   \<and> (AlertCreate \<in> e_faults e \<longrightarrow>
        w_alerts (snd (reachConsensus e key w)) = w_alerts w
        \<and> getWindow (snd (reachConsensus e key w)) key =
            map_option (\<lambda>c. c\<lparr> cd_consensusReached := True \<rparr>) (getWindow w key)
        \<and> w_alerts (snd (processReport e r w)) = w_alerts w
        \<and> (wellFormed req \<and> authenticated w req \<and> inScope w req
             \<and> AgentFindUnique \<notin> e_faults e \<and> AgentReportCreate \<notin> e_faults e
             \<and> AgentUpdate \<notin> e_faults e \<longrightarrow>
             fst (reportHandler e req w) =
               \<lparr> hr_status = 200, hr_body = ReportAccepted (e_newReportId e) \<rparr>
             \<and> w_alerts (snd (reportHandler e req w)) = w_alerts w))"
proof (intro conjI impI)
  show "fst (reachConsensus e key w) = Inr ()" by (rule reachConsensus_ok)
  show "fst (processReport e r w) = Inr ()" by (rule processReport_ok)
next
  assume f: "AlertCreate \<in> e_faults e"
  show "w_alerts (snd (reachConsensus e key w)) = w_alerts w"
    using f by (simp add: reachConsensus_alerts split: option.splits)
  show "getWindow (snd (reachConsensus e key w)) key =
            map_option (\<lambda>c. c\<lparr> cd_consensusReached := True \<rparr>) (getWindow w key)"
    by (simp add: reachConsensus_window)
  show "w_alerts (snd (processReport e r w)) = w_alerts w"
    using f by (rule processReport_alert_fault)
next
  assume f: "AlertCreate \<in> e_faults e"
    and h: "wellFormed req \<and> authenticated w req \<and> inScope w req
             \<and> AgentFindUnique \<notin> e_faults e \<and> AgentReportCreate \<notin> e_faults e
             \<and> AgentUpdate \<notin> e_faults e"
  from h have "text_of (rq_status req) \<in> set allowedStatuses" by (simp add: wellFormed_def)
  then obtain st where st: "statusOfString (text_of (rq_status req)) = Some st"
    using statusOfString_allowed by blast
  note acc = reportHandler_accepts [of req w e st]
  show "fst (reportHandler e req w) =
        \<lparr> hr_status = 200, hr_body = ReportAccepted (e_newReportId e) \<rparr>"
    using h st by (simp add: acc)
  show "w_alerts (snd (reportHandler e req w)) = w_alerts w"
    using h st f by (simp add: acc processReport_alert_fault)
qed

subsection \<open>Sample runs through the endpoint\<close>

lemma worldOne_value:
  "worldOne =
     world0\<lparr> w_agents :=
         [\<lparr> ag_id = ''a1'', ag_apiKey = ''k1'', ag_isActive = True, ag_validatorId = Some ''v1'',
            ag_lastSeen = Some 0 \<rparr>,
          \<lparr> ag_id = ''a2'', ag_apiKey = ''k1'', ag_isActive = True, ag_validatorId = Some ''v1'',
            ag_lastSeen = None \<rparr>],
       w_agentReports := [reportOf ''r1'' ''a1'' ''v1'' RS_UNHEALTHY 0],
       w_activeConsensus :=
         [(''validator_v1'',
           \<lparr> cd_validatorId = ''v1'', cd_status = RS_UNHEALTHY,
             cd_reports = [reportOf ''r1'' ''a1'' ''v1'' RS_UNHEALTHY 0],
             cd_consensusReached = False, cd_threshold = 2 \<rparr>)],
       w_reportHistory := [(''a1'', [0])],
       w_wsOut := [ValidatorUpdate ''v1'' ''consensus_update'' (ConsensusProgress 1 1 2 False)] \<rparr>"
  unfolding worldOne_def world0_def
  by (simp add: collector_defs)

lemma worldOne_checks:
  "wellFormed (requestOf ''a2'' ''k1'' ''v1'' ''UNHEALTHY'')"
  "authenticated worldOne (requestOf ''a2'' ''k1'' ''v1'' ''UNHEALTHY'')"
  "inScope worldOne (requestOf ''a2'' ''k1'' ''v1'' ''UNHEALTHY'')"
  unfolding worldOne_value world0_def
  by (simp_all add: wellFormed_def authenticated_def inScope_def agentOf_def validatorOf_def
      requestOf_def falsy_def text_of_def allowedStatuses_def)

text \<open>
  The theorem at the second report of the sample run, with an alert table that refuses
  the insert.
\<close>

theorem aggregator_swallows_failures_witness:
  "AlertCreate \<in> e_faults (envAt 1000 ''r2'' ''al1'' {AlertCreate})
   \<and> fst (reachConsensus (envAt 1000 ''r2'' ''al1'' {AlertCreate}) ''validator_v1'' worldOne) = Inr ()
   \<and> w_alerts (snd (reachConsensus (envAt 1000 ''r2'' ''al1'' {AlertCreate}) ''validator_v1'' worldOne)) = []
   \<and> fst (reportHandler (envAt 1000 ''r2'' ''al1'' {AlertCreate})
           (requestOf ''a2'' ''k1'' ''v1'' ''UNHEALTHY'') worldOne) =
       \<lparr> hr_status = 200, hr_body = ReportAccepted ''r2'' \<rparr>
   \<and> w_alerts (snd (reportHandler (envAt 1000 ''r2'' ''al1'' {AlertCreate})
           (requestOf ''a2'' ''k1'' ''v1'' ''UNHEALTHY'') worldOne)) = []"
proof -
  let ?e = "envAt 1000 ''r2'' ''al1'' {AlertCreate}"
  let ?req = "requestOf ''a2'' ''k1'' ''v1'' ''UNHEALTHY''"
  have f: "AlertCreate \<in> e_faults ?e" "AgentFindUnique \<notin> e_faults ?e"
    "AgentReportCreate \<notin> e_faults ?e" "AgentUpdate \<notin> e_faults ?e"
    by (simp_all add: envAt_def)
  have a0: "w_alerts worldOne = []" unfolding worldOne_value world0_def by simp
  have id: "e_newReportId ?e = ''r2''" by (simp add: envAt_def)
  from aggregator_swallows_failures
    [of ?e "''validator_v1''" worldOne "reportOf ''r2'' ''a2'' ''v1'' RS_UNHEALTHY 1000" ?req]
    f worldOne_checks
  show ?thesis by (simp add: a0 id)
qed

text \<open>
  C4 as stated fails: the second report reaches quorum, the insert of the alert throws,
  and the caller still gets 200 with the report id; the failure is only a console line,
  and the latch is set.
\<close>

theorem alert_failure_not_propagated_counterexample:
  "fst (reportHandler (envAt 1000 ''r2'' ''al1'' {AlertCreate})
         (requestOf ''a2'' ''k1'' ''v1'' ''UNHEALTHY'') worldOne) =
     \<lparr> hr_status = 200, hr_body = ReportAccepted ''r2'' \<rparr>
   \<and> w_console (snd (reportHandler (envAt 1000 ''r2'' ''al1'' {AlertCreate})
         (requestOf ''a2'' ''k1'' ''v1'' ''UNHEALTHY'') worldOne)) =
       [''Error reaching consensus: alert.create failed'']
   \<and> latched (snd (reportHandler (envAt 1000 ''r2'' ''al1'' {AlertCreate})
         (requestOf ''a2'' ''k1'' ''v1'' ''UNHEALTHY'') worldOne)) ''v1''"
  unfolding worldOne_value world0_def
  by (simp add: collector_defs latched_def)

lemma world0_checks:
  "wellFormed (requestOf ''a1'' ''k1'' ''v1'' ''UNHEALTHY'')"
  "authenticated world0 (requestOf ''a1'' ''k1'' ''v1'' ''UNHEALTHY'')"
  "inScope world0 (requestOf ''a1'' ''k1'' ''v1'' ''UNHEALTHY'')"
  "\<not> wellFormed (requestOf ''a1'' ''k1'' ''v1'' ''DOWN'')"
  "\<not> wellFormed (requestOf ''a1'' [] ''v1'' ''UNHEALTHY'')"
  "wellFormed (requestOf ''a1'' ''wrong'' ''v1'' ''UNHEALTHY'')"
  "\<not> authenticated world0 (requestOf ''a1'' ''wrong'' ''v1'' ''UNHEALTHY'')"
  "wellFormed (requestOf ''a1'' ''k1'' ''v2'' ''UNHEALTHY'')"
  "authenticated world0 (requestOf ''a1'' ''k1'' ''v2'' ''UNHEALTHY'')"
  "\<not> inScope world0 (requestOf ''a1'' ''k1'' ''v2'' ''UNHEALTHY'')"
  unfolding world0_def
  by (simp_all add: wellFormed_def authenticated_def inScope_def agentOf_def validatorOf_def
      requestOf_def falsy_def text_of_def allowedStatuses_def)

text \<open>
  The contract of C5 at six requests against the sample state: an unknown status, an
  empty key, a wrong key, another validator, and an acceptable report.
\<close>

theorem reportHandler_contract_witness:
  "hr_status (fst (reportHandler (envAt 0 ''r1'' ''al1'' {}) (requestOf ''a1'' ''k1'' ''v1'' ''DOWN'') world0)) = 400
   \<and> hr_status (fst (reportHandler (envAt 0 ''r1'' ''al1'' {}) (requestOf ''a1'' [] ''v1'' ''UNHEALTHY'') world0)) = 400
   \<and> hr_status (fst (reportHandler (envAt 0 ''r1'' ''al1'' {}) (requestOf ''a1'' ''wrong'' ''v1'' ''UNHEALTHY'') world0)) = 401
   \<and> snd (reportHandler (envAt 0 ''r1'' ''al1'' {}) (requestOf ''a1'' ''wrong'' ''v1'' ''UNHEALTHY'') world0) = world0
   \<and> hr_status (fst (reportHandler (envAt 0 ''r1'' ''al1'' {}) (requestOf ''a1'' ''k1'' ''v2'' ''UNHEALTHY'') world0)) = 403
   \<and> fst (reportHandler (envAt 0 ''r1'' ''al1'' {}) (requestOf ''a1'' ''k1'' ''v1'' ''UNHEALTHY'') world0) =
       \<lparr> hr_status = 200, hr_body = ReportAccepted ''r1'' \<rparr>"
proof -
  let ?e = "envAt 0 ''r1'' ''al1'' {}"
  have f: "AgentFindUnique \<notin> e_faults ?e" "AgentReportCreate \<notin> e_faults ?e"
    "AgentUpdate \<notin> e_faults ?e" and id: "e_newReportId ?e = ''r1''"
    by (simp_all add: envAt_def)
  from reportHandler_contract [of "requestOf ''a1'' ''k1'' ''v1'' ''DOWN''" ?e world0] world0_checks
  have 1: "hr_status (fst (reportHandler ?e (requestOf ''a1'' ''k1'' ''v1'' ''DOWN'') world0)) = 400"
    by blast
  from reportHandler_contract [of "requestOf ''a1'' [] ''v1'' ''UNHEALTHY''" ?e world0] world0_checks
  have 2: "hr_status (fst (reportHandler ?e (requestOf ''a1'' [] ''v1'' ''UNHEALTHY'') world0)) = 400"
    by blast
  from reportHandler_contract [of "requestOf ''a1'' ''wrong'' ''v1'' ''UNHEALTHY''" ?e world0]
    world0_checks f
  have 3: "hr_status (fst (reportHandler ?e (requestOf ''a1'' ''wrong'' ''v1'' ''UNHEALTHY'') world0)) = 401"
    and 4: "hr_status (fst (reportHandler ?e (requestOf ''a1'' ''wrong'' ''v1'' ''UNHEALTHY'') world0))
              \<in> {400, 401, 403} \<longrightarrow>
            snd (reportHandler ?e (requestOf ''a1'' ''wrong'' ''v1'' ''UNHEALTHY'') world0) = world0"
    by blast+
  from reportHandler_contract [of "requestOf ''a1'' ''k1'' ''v2'' ''UNHEALTHY''" ?e world0]
    world0_checks f
  have 5: "hr_status (fst (reportHandler ?e (requestOf ''a1'' ''k1'' ''v2'' ''UNHEALTHY'') world0)) = 403"
    by blast
  from reportHandler_contract [of "requestOf ''a1'' ''k1'' ''v1'' ''UNHEALTHY''" ?e world0]
    world0_checks f
  have 6: "fst (reportHandler ?e (requestOf ''a1'' ''k1'' ''v1'' ''UNHEALTHY'') world0) =
       \<lparr> hr_status = 200, hr_body = ReportAccepted (e_newReportId ?e) \<rparr>"
    by blast
  from 3 4 have 7: "snd (reportHandler ?e (requestOf ''a1'' ''wrong'' ''v1'' ''UNHEALTHY'') world0) = world0"
    by simp
  from 1 2 3 5 6 7 show ?thesis by (simp add: id)
qed

subsection \<open>Reports that are neither UNHEALTHY nor HEALTHY\<close>

lemma touchAgent_idem: "touchAgent e a (touchAgent e a ags) = touchAgent e a ags"
  by (induction ags) (auto simp: touchAgent_def)

lemma find_touchAgent:
  "find (\<lambda>x. ag_id x = a) (touchAgent e b ags) = None \<longleftrightarrow> find (\<lambda>x. ag_id x = a) ags = None"
  by (induction ags) (auto simp: touchAgent_def)

lemma processReport_other_status:
  assumes "ar_status r \<noteq> RS_UNHEALTHY" and "ar_status r \<noteq> RS_HEALTHY"
    and "agentUpdateOk e (ar_agentId r) w"
  shows "snd (processReport e r w) =
     addToReportHistory e (ar_agentId r)
       (w\<lparr> w_agents := touchAgent e (ar_agentId r) (w_agents w) \<rparr>)"
  using assms
  by (auto simp: processReport_def processReport_try_def prisma_agent_update_def agentUpdateOk_def
      touchAgent_def)

lemma processReport_other_status_windows:
  assumes "ar_status r \<noteq> RS_UNHEALTHY" and "ar_status r \<noteq> RS_HEALTHY"
  shows "w_activeConsensus (snd (processReport e r w)) = w_activeConsensus w"
proof (cases e "ar_agentId r" w rule: prisma_agent_update_cases)
  case (fails err)
  then show ?thesis
    by (simp add: processReport_def processReport_try_def consoleError_frame)
next
  case ok
  then show ?thesis
    using assms by (simp add: processReport_def processReport_try_def addToReportHistory_frame)
qed

lemma getWindow_deleteWindow:
  "getWindow (deleteWindow key w) k = (if k = key then None else getWindow w k)"
proof -
  have "map_of (filter (\<lambda>(k', c). k' \<noteq> key) xs) k = (if k = key then None else map_of xs k)"
    for xs :: "(string \<times> ConsensusData) list"
    by (induction xs) auto
  then show ?thesis by (simp add: getWindow_def deleteWindow_def)
qed

lemma cancelConsensus_activeConsensus:
  "w_activeConsensus (snd (cancelConsensus e v w)) = w_activeConsensus w
   \<or> w_activeConsensus (snd (cancelConsensus e v w)) =
       w_activeConsensus (deleteWindow (consensusKey v) w)"
  by (simp add: cancelConsensus_def Let_def prisma_agentReport_updateMany_def deleteWindow_def
      broadcast_def split: option.splits)

lemma cancelConsensus_windows:
  assumes "getWindow (snd (cancelConsensus e v w)) k = Some c"
  shows "getWindow w k = Some c"
proof -
  from cancelConsensus_activeConsensus [of e v w]
  have "getWindow (snd (cancelConsensus e v w)) k = getWindow w k
      \<or> getWindow (snd (cancelConsensus e v w)) k = getWindow (deleteWindow (consensusKey v) w) k"
    by (auto simp: getWindow_def)
  with assms show ?thesis
    by (auto simp: getWindow_deleteWindow split: if_splits)
qed

lemma processReport_not_unhealthy_windows:
  assumes "ar_status r \<noteq> RS_UNHEALTHY"
    and "getWindow (snd (processReport e r w)) k = Some c"
  shows "getWindow w k = Some c"
proof (cases "ar_status r = RS_HEALTHY")
  case False
  with assms processReport_other_status_windows [of r e w] show ?thesis
    by (simp add: getWindow_def)
next
  case True
  show ?thesis
  proof (cases e "ar_agentId r" w rule: prisma_agent_update_cases)
    case (fails err)
    with assms(2) show ?thesis
      by (simp add: processReport_def processReport_try_def consoleError_frame getWindow_def)
  next
    case ok
    let ?w1 = "w\<lparr> w_agents :=
           map (\<lambda>x. if ag_id x = ar_agentId r then x\<lparr> ag_lastSeen := Some (e_now e) \<rparr> else x)
             (w_agents w) \<rparr>"
    let ?v = "case ar_validatorId r of None \<Rightarrow> ''undefined'' | Some v \<Rightarrow> v"
    have "w_activeConsensus (snd (processReport e r w)) =
        w_activeConsensus (snd (cancelConsensus e ?v ?w1))"
      using ok True
      by (cases "cancelConsensus e ?v ?w1")
         (auto simp: processReport_def processReport_try_def consoleError_frame
            addToReportHistory_frame split: sum.splits)
    then have "getWindow (snd (cancelConsensus e ?v ?w1)) k = Some c"
      using assms(2) by (simp add: getWindow_def)
    then have "getWindow ?w1 k = Some c" by (rule cancelConsensus_windows)
    then show ?thesis by (simp add: getWindow_def)
  qed
qed

text \<open>The keys of the window map.\<close>

lemma getWindow_None_iff: "getWindow w k = None \<longleftrightarrow> k \<notin> fst ` set (w_activeConsensus w)"
  by (simp add: getWindow_def map_of_eq_None_iff)

lemma modifyWindow_keys:
  "map fst (w_activeConsensus (modifyWindow key f w)) = map fst (w_activeConsensus w)"
  by (simp add: modifyWindow_def case_prod_beta comp_def)

lemma reachConsensus_activeConsensus:
  "w_activeConsensus (snd (reachConsensus e key w)) =
     w_activeConsensus (modifyWindow key (\<lambda>c. c\<lparr> cd_consensusReached := True \<rparr>) w)"
  by (simp add: reachConsensus_def Let_def consoleError_def split_beta reachConsensus_try_frame
      split: sum.splits)

lemma addReportToConsensus_keys:
  "map fst (w_activeConsensus (snd (addReportToConsensus e key r w))) =
     map fst (w_activeConsensus w)"
proof (cases "getWindow w key")
  case None
  then show ?thesis by (simp add: addReportToConsensus_def)
next
  case (Some c)
  let ?w1 = "modifyWindow key (\<lambda>c'. c'\<lparr> cd_reports := upsertReport r (cd_reports c) \<rparr>) w"
  have rc: "reachConsensus e key ?w1 = (Inr (), snd (reachConsensus e key ?w1))"
    using reachConsensus_ok [of e key ?w1] by (cases "reachConsensus e key ?w1") simp
  show ?thesis
    using Some
    apply (simp add: addReportToConsensus_def Let_def)
    apply (intro conjI impI)
     apply (subst rc)
     apply (simp add: broadcast_frame reachConsensus_activeConsensus modifyWindow_keys)
    apply (simp add: broadcast_frame modifyWindow_keys)
    done
qed

lemma initiateConsensus_keys:
  "set (map fst (w_activeConsensus w)) \<subseteq>
     set (map fst (w_activeConsensus (snd (initiateConsensus e r w))))"
  by (auto simp: initiateConsensus_def Let_def addReportToConsensus_keys
      simp del: set_map split: option.splits)

lemma processReport_not_healthy_windows:
  assumes "ar_status r \<noteq> RS_HEALTHY" and "getWindow w k \<noteq> None"
  shows "getWindow (snd (processReport e r w)) k \<noteq> None"
proof (cases "ar_status r = RS_UNHEALTHY")
  case False
  with assms processReport_other_status_windows [of r e w] show ?thesis
    by (simp add: getWindow_def)
next
  case True
  show ?thesis
  proof (cases e "ar_agentId r" w rule: prisma_agent_update_cases)
    case (fails err)
    with assms(2) show ?thesis
      by (simp add: processReport_def processReport_try_def consoleError_frame getWindow_def)
  next
    case ok
    let ?w1 = "w\<lparr> w_agents :=
           map (\<lambda>x. if ag_id x = ar_agentId r then x\<lparr> ag_lastSeen := Some (e_now e) \<rparr> else x)
             (w_agents w) \<rparr>"
    have "w_activeConsensus (snd (processReport e r w)) =
        w_activeConsensus (snd (initiateConsensus e r ?w1))"
      using ok True
      by (cases "initiateConsensus e r ?w1")
         (auto simp: processReport_def processReport_try_def consoleError_frame
            addToReportHistory_frame split: sum.splits)
    moreover have "k \<in> set (map fst (w_activeConsensus ?w1))"
      using assms(2) by (simp add: getWindow_None_iff)
    ultimately have "k \<in> set (map fst (w_activeConsensus (snd (processReport e r w))))"
      using initiateConsensus_keys [of ?w1 e r] by auto
    then show ?thesis by (simp add: getWindow_None_iff)
  qed
qed


text \<open>
  C10 (as amended). For an accepted report whose status is CONSENSUS_REACHED or
  CONSENSUS_FAILED the window map stays as it is, and the state after the request is the
  state before it with three changes: the report row is appended, \<open>lastSeen\<close> of the agent
  is set, and the time is added to the aggregator's report history of the agent. For
  every report: unless it is UNHEALTHY, each window present afterwards was present
  before, unchanged (nothing is opened or extended); unless it is HEALTHY, each window
  present before is present afterwards (nothing is cancelled).
\<close>

theorem other_status_frame:
  "((rq_status req = Some ''CONSENSUS_REACHED'' \<or> rq_status req = Some ''CONSENSUS_FAILED'')
      \<and> hr_status (fst (reportHandler e req w)) = 200 \<longrightarrow>
      snd (reportHandler e req w) =
        addToReportHistory e (text_of (rq_agentId req))
          (w\<lparr> w_agentReports := w_agentReports w @
                 [\<lparr> ar_id = e_newReportId e, ar_agentId = text_of (rq_agentId req),
                    ar_validatorId = Some (text_of (rq_validatorId req)),
                    ar_status = (if rq_status req = Some ''CONSENSUS_REACHED''
                                 then CONSENSUS_REACHED else CONSENSUS_FAILED),
                    ar_message = rq_message req, ar_signature = rq_signature req,
                    ar_consensus = False, ar_createdAt = e_now e \<rparr>],
               w_agents := touchAgent e (text_of (rq_agentId req)) (w_agents w) \<rparr>)
      \<and> w_activeConsensus (snd (reportHandler e req w)) = w_activeConsensus w)
   \<and> (ar_status r \<noteq> RS_UNHEALTHY \<longrightarrow>
        (\<forall>k c. getWindow (snd (processReport e r w)) k = Some c \<longrightarrow> getWindow w k = Some c))
   \<and> (ar_status r \<noteq> RS_HEALTHY \<longrightarrow>
        (\<forall>k. getWindow w k \<noteq> None \<longrightarrow> getWindow (snd (processReport e r w)) k \<noteq> None))"
proof (intro conjI impI allI)
  assume h: "(rq_status req = Some ''CONSENSUS_REACHED'' \<or> rq_status req = Some ''CONSENSUS_FAILED'')
      \<and> hr_status (fst (reportHandler e req w)) = 200"
  let ?st = "if rq_status req = Some ''CONSENSUS_REACHED'' then CONSENSUS_REACHED else CONSENSUS_FAILED"
  let ?aid = "text_of (rq_agentId req)"
  let ?row = "\<lparr> ar_id = e_newReportId e, ar_agentId = ?aid,
                    ar_validatorId = Some (text_of (rq_validatorId req)),
                    ar_status = ?st,
                    ar_message = rq_message req, ar_signature = rq_signature req,
                    ar_consensus = False, ar_createdAt = e_now e \<rparr>"
  let ?w2 = "w\<lparr> w_agentReports := w_agentReports w @ [?row],
               w_agents := touchAgent e ?aid (w_agents w) \<rparr>"
  from h have ok: "wellFormed req" "authenticated w req" "inScope w req"
      "AgentFindUnique \<notin> e_faults e" "AgentReportCreate \<notin> e_faults e"
      "AgentUpdate \<notin> e_faults e"
    using reportHandler_200 [of e req w] by simp_all
  have st: "statusOfString (text_of (rq_status req)) = Some ?st"
    using h by (auto simp: statusOfString_def text_of_def)
  have eq: "snd (reportHandler e req w) = snd (processReport e ?row ?w2)"
    using reportHandler_accepts [OF ok st] by simp
  have "find (\<lambda>a. ag_id a = ?aid) (w_agents w) \<noteq> None"
    using ok(2) by (auto simp: authenticated_def agentOf_def split: option.splits)
  then have upd: "agentUpdateOk e (ar_agentId ?row) ?w2"
    using ok(6) by (simp add: agentUpdateOk_def find_touchAgent)
  have other: "ar_status ?row \<noteq> RS_UNHEALTHY" "ar_status ?row \<noteq> RS_HEALTHY" by simp_all
  show "snd (reportHandler e req w) = addToReportHistory e ?aid ?w2"
    unfolding eq processReport_other_status [OF other upd]
    by (simp add: touchAgent_idem)
  show "w_activeConsensus (snd (reportHandler e req w)) = w_activeConsensus w"
    unfolding eq processReport_other_status_windows [OF other] by simp
next
  fix k c
  assume "ar_status r \<noteq> RS_UNHEALTHY" and "getWindow (snd (processReport e r w)) k = Some c"
  then show "getWindow w k = Some c" by (rule processReport_not_unhealthy_windows)
next
  fix k
  assume "ar_status r \<noteq> RS_HEALTHY" and "getWindow w k \<noteq> None"
  then show "getWindow (snd (processReport e r w)) k \<noteq> None"
    by (rule processReport_not_healthy_windows)
qed

text \<open>
  The theorem at a CONSENSUS_FAILED report of \<open>a2\<close> sent while the window of \<open>v1\<close> is open.
\<close>

theorem other_status_frame_witness:
  "hr_status (fst (reportHandler (envAt 1000 ''r2'' ''al1'' {})
      (requestOf ''a2'' ''k1'' ''v1'' ''CONSENSUS_FAILED'') worldOne)) = 200
   \<and> w_activeConsensus (snd (reportHandler (envAt 1000 ''r2'' ''al1'' {})
        (requestOf ''a2'' ''k1'' ''v1'' ''CONSENSUS_FAILED'') worldOne)) = w_activeConsensus worldOne
   \<and> w_agentReports (snd (reportHandler (envAt 1000 ''r2'' ''al1'' {})
        (requestOf ''a2'' ''k1'' ''v1'' ''CONSENSUS_FAILED'') worldOne)) =
       [reportOf ''r1'' ''a1'' ''v1'' RS_UNHEALTHY 0, reportOf ''r2'' ''a2'' ''v1'' CONSENSUS_FAILED 1000]
   \<and> getWindow (snd (processReport (envAt 1000 ''r2'' ''al1'' {})
        (reportOf ''r2'' ''a2'' ''v1'' CONSENSUS_FAILED 1000) worldOne)) ''validator_v1'' =
       getWindow worldOne ''validator_v1''
   \<and> getWindow worldOne ''validator_v1'' \<noteq> None"
proof -
  let ?e = "envAt 1000 ''r2'' ''al1'' {}"
  let ?req = "requestOf ''a2'' ''k1'' ''v1'' ''CONSENSUS_FAILED''"
  let ?r = "reportOf ''r2'' ''a2'' ''v1'' CONSENSUS_FAILED 1000"
  have h1: "rq_status ?req = Some ''CONSENSUS_FAILED''" by (simp add: requestOf_def)
  have h2: "hr_status (fst (reportHandler ?e ?req worldOne)) = 200"
    unfolding worldOne_value world0_def by (simp add: collector_defs)
  have h3: "ar_status ?r \<noteq> RS_UNHEALTHY" "ar_status ?r \<noteq> RS_HEALTHY"
    by (simp_all add: reportOf_def)
  have h4: "getWindow worldOne ''validator_v1'' \<noteq> None"
    unfolding worldOne_value world0_def by (simp add: getWindow_def)
  then obtain c where c: "getWindow worldOne ''validator_v1'' = Some c" by blast
  note inst = other_status_frame [of ?req ?e worldOne ?r]
  from inst h1 h2 have
    a: "snd (reportHandler ?e ?req worldOne) =
        addToReportHistory ?e (text_of (rq_agentId ?req))
          (worldOne\<lparr> w_agentReports := w_agentReports worldOne @
                 [\<lparr> ar_id = e_newReportId ?e, ar_agentId = text_of (rq_agentId ?req),
                    ar_validatorId = Some (text_of (rq_validatorId ?req)),
                    ar_status = (if rq_status ?req = Some ''CONSENSUS_REACHED''
                                 then CONSENSUS_REACHED else CONSENSUS_FAILED),
                    ar_message = rq_message ?req, ar_signature = rq_signature ?req,
                    ar_consensus = False, ar_createdAt = e_now ?e \<rparr>],
               w_agents := touchAgent ?e (text_of (rq_agentId ?req)) (w_agents worldOne) \<rparr>)"
    and b: "w_activeConsensus (snd (reportHandler ?e ?req worldOne)) = w_activeConsensus worldOne"
    by blast+
  from inst h3 h4 have n: "getWindow (snd (processReport ?e ?r worldOne)) ''validator_v1'' \<noteq> None"
    by blast
  then obtain c' where c': "getWindow (snd (processReport ?e ?r worldOne)) ''validator_v1'' = Some c'"
    by blast
  with inst h3 have "getWindow worldOne ''validator_v1'' = Some c'" by blast
  with c' have same: "getWindow (snd (processReport ?e ?r worldOne)) ''validator_v1'' =
      getWindow worldOne ''validator_v1''" by simp
  have rows: "w_agentReports (snd (reportHandler ?e ?req worldOne)) =
      [reportOf ''r1'' ''a1'' ''v1'' RS_UNHEALTHY 0, reportOf ''r2'' ''a2'' ''v1'' CONSENSUS_FAILED 1000]"
    unfolding a unfolding worldOne_value world0_def
    by (simp add: addToReportHistory_frame requestOf_def reportOf_def envAt_def text_of_def)
  from h2 b rows same h4 show ?thesis by blast
qed

text \<open>
  C10 as stated fails in one point: an accepted CONSENSUS_REACHED report also changes
  the report history of the aggregator.
\<close>

theorem other_status_history_counterexample:
  "hr_status (fst (reportHandler (envAt 0 ''r1'' ''al1'' {})
      (requestOf ''a1'' ''k1'' ''v1'' ''CONSENSUS_REACHED'') world0)) = 200
   \<and> w_reportHistory world0 = []
   \<and> w_reportHistory (snd (reportHandler (envAt 0 ''r1'' ''al1'' {})
        (requestOf ''a1'' ''k1'' ''v1'' ''CONSENSUS_REACHED'') world0)) = [(''a1'', [0])]"
  unfolding world0_def
  by (simp add: collector_defs)

subsection \<open>Lifetime of a window\<close>

























subsection \<open>Suppression of healthy reports\<close>






subsection \<open>Sample agent runs\<close>

lemmas agent_sample_defs =
  agentCfg_def probeResult_def responseOf_def peerOf_def netTwo_def netNone_def waitBusy_def
  waitSilent_def waitLeft_def cycleOf_def

text \<open>
  The contract of C6 on the sample wait, once without peers and once with two.
\<close>

theorem requestConsensus_contract_witness:
  "requestConsensus netNone waitBusy (consensusRequestFor (agentCfg True)
      (cycleOf UNHEALTHY waitBusy True) (probeResult UNHEALTHY)) 120000 =
     (\<lparr> res_consensusId = ''c1'', res_responses = [], res_agreeCount = 0, res_totalPeers = 0 \<rparr>, [])
   \<and> waited (snd (requestConsensus netTwo waitBusy (consensusRequestFor (agentCfg True)
        (cycleOf UNHEALTHY waitBusy True) (probeResult UNHEALTHY)) 120000)) = 120000
   \<and> distinct (map cr_agentId (res_responses (fst (requestConsensus netTwo waitBusy
        (consensusRequestFor (agentCfg True) (cycleOf UNHEALTHY waitBusy True)
           (probeResult UNHEALTHY)) 120000))))
   \<and> find (\<lambda>x. cr_agentId x = ''a2'') (res_responses (fst (requestConsensus netTwo waitBusy
        (consensusRequestFor (agentCfg True) (cycleOf UNHEALTHY waitBusy True)
           (probeResult UNHEALTHY)) 120000))) = Some (responseOf ''c1'' ''a2'' ''a1'' True)
   \<and> find (\<lambda>x. cr_agentId x = ''a3'') (res_responses (fst (requestConsensus netTwo waitBusy
        (consensusRequestFor (agentCfg True) (cycleOf UNHEALTHY waitBusy True)
           (probeResult UNHEALTHY)) 120000))) = Some (responseOf ''c1'' ''a3'' ''a1'' True)
   \<and> res_agreeCount (fst (requestConsensus netTwo waitBusy
        (consensusRequestFor (agentCfg True) (cycleOf UNHEALTHY waitBusy True)
           (probeResult UNHEALTHY)) 120000)) = 2"
proof -
  let ?rq = "consensusRequestFor (agentCfg True) (cycleOf UNHEALTHY waitBusy True)
      (probeResult UNHEALTHY)"
  have p0: "pn_peers netNone = []" and p2: "pn_peers netTwo \<noteq> []"
    by (simp_all add: netNone_def netTwo_def)
  have u: "we_uuid waitBusy = ''c1''" by (simp add: waitBusy_def)
  from requestConsensus_contract [of netNone waitBusy ?rq 120000] p0
  have a: "requestConsensus netNone waitBusy ?rq 120000 =
     (\<lparr> res_consensusId = we_uuid waitBusy, res_responses = [], res_agreeCount = 0,
        res_totalPeers = 0 \<rparr>, [])"
    by blast
  note inst = requestConsensus_contract [of netTwo waitBusy ?rq 120000]
  from inst p2 have
    b: "waited (snd (requestConsensus netTwo waitBusy ?rq 120000)) = 120000"
    and c: "distinct (map cr_agentId (res_responses (fst (requestConsensus netTwo waitBusy ?rq 120000))))"
    and d: "\<And>a. find (\<lambda>x. cr_agentId x = a)
                (res_responses (fst (requestConsensus netTwo waitBusy ?rq 120000))) =
              lastOption (filter (\<lambda>r. accepted (we_uuid waitBusy) (pn_agentId netTwo) r \<and> cr_agentId r = a)
                (map snd (filter (\<lambda>(t, r). t < 120000) (we_arrivals waitBusy))))"
    and e: "res_agreeCount (fst (requestConsensus netTwo waitBusy ?rq 120000)) =
          int (length (filter cr_agree
            (res_responses (fst (requestConsensus netTwo waitBusy ?rq 120000)))))"
    by blast+
  have d2: "find (\<lambda>x. cr_agentId x = ''a2'')
      (res_responses (fst (requestConsensus netTwo waitBusy ?rq 120000))) =
      Some (responseOf ''c1'' ''a2'' ''a1'' True)"
    unfolding d by (simp add: waitBusy_def netTwo_def accepted_def lastOption_def responseOf_def)
  have d3: "find (\<lambda>x. cr_agentId x = ''a3'')
      (res_responses (fst (requestConsensus netTwo waitBusy ?rq 120000))) =
      Some (responseOf ''c1'' ''a3'' ''a1'' True)"
    unfolding d by (simp add: waitBusy_def netTwo_def accepted_def lastOption_def responseOf_def)
  have n: "int (length (filter cr_agree
            (res_responses (fst (requestConsensus netTwo waitBusy ?rq 120000))))) = 2"
    by (simp add: requestConsensus_def Let_def inTime_def handler_def waitBusy_def netTwo_def
        responseOf_def peerOf_def)
  from a b c d2 d3 e n show ?thesis by (simp add: u)
qed

text \<open>
  The quorum rule of C3 at four cycles: two peers that end up agreeing, a single peer
  that disagrees, an agent without P2P, and peers that are gone when the wait ends.
\<close>

theorem handleHealthResult_quorum_rule_witness:
  "posts (snd (handleHealthResult (agentCfg True) (startedAgent (Some netTwo))
      (cycleOf UNHEALTHY waitBusy True) (probeResult UNHEALTHY))) =
     [\<lparr> rp_agentId = ''a1'', rp_validatorId = ''v1'', rp_status = UNHEALTHY,
         rp_message = ''Validator is unhealthy'', rp_agentApiKey = ''k1'' \<rparr>]
   \<and> posts (snd (handleHealthResult (agentCfg True) (startedAgent (Some netTwo))
      (cycleOf UNHEALTHY waitSilent True) (probeResult UNHEALTHY))) = []
   \<and> posts (snd (handleHealthResult (agentCfg False) (startedAgent None)
      (cycleOf UNHEALTHY waitSilent True) (probeResult UNHEALTHY))) =
     [\<lparr> rp_agentId = ''a1'', rp_validatorId = ''v1'', rp_status = UNHEALTHY,
         rp_message = ''Validator is unhealthy'', rp_agentApiKey = ''k1'' \<rparr>]
   \<and> posts (snd (handleHealthResult (agentCfg True) (startedAgent (Some netTwo))
      (cycleOf UNHEALTHY waitLeft True) (probeResult UNHEALTHY))) =
     [\<lparr> rp_agentId = ''a1'', rp_validatorId = ''v1'', rp_status = UNHEALTHY,
         rp_message = ''Validator is unhealthy'', rp_agentApiKey = ''k1'' \<rparr>]"
proof -
  let ?hr = "probeResult UNHEALTHY"
  let ?busy = "cycleOf UNHEALTHY waitBusy True" and ?silent = "cycleOf UNHEALTHY waitSilent True"
  let ?agent = "startedAgent (Some netTwo)"
  let ?payload = "\<lparr> rp_agentId = ''a1'', rp_validatorId = ''v1'', rp_status = UNHEALTHY,
         rp_message = ''Validator is unhealthy'', rp_agentApiKey = ''k1'' \<rparr>"
  have u: "hc_status ?hr = UNHEALTHY" by (simp add: probeResult_def)
  have p: "ac_p2pEnabled (agentCfg True)" "sa_peerNetwork ?agent = Some netTwo"
    "\<not> ac_p2pEnabled (agentCfg False)"
    by (simp_all add: agentCfg_def startedAgent_def)
  have f: "ac_agentId (agentCfg b) = ''a1''" "ac_agentApiKey (agentCfg b) = ''k1''"
    "hc_validatorId ?hr = ''v1''" "hc_error ?hr = None" for b
    by (simp_all add: agentCfg_def probeResult_def)
  have t1: "res_totalPeers (fst (requestConsensus netTwo (ce_wait ?busy)
          (consensusRequestFor (agentCfg True) ?busy ?hr) (ac_consensusTimeout (agentCfg True)))) \<noteq> 0"
    by (simp add: requestConsensus_def Let_def agent_sample_defs)
  have t2: "res_totalPeers (fst (requestConsensus netTwo (ce_wait ?silent)
          (consensusRequestFor (agentCfg True) ?silent ?hr) (ac_consensusTimeout (agentCfg True)))) \<noteq> 0"
    by (simp add: requestConsensus_def Let_def agent_sample_defs)
  have n1: "int (length (filter cr_agree (res_responses (fst (requestConsensus netTwo (ce_wait ?busy)
          (consensusRequestFor (agentCfg True) ?busy ?hr) (ac_consensusTimeout (agentCfg True)))))))
        + 1 \<ge> ac_consensusThreshold (agentCfg True)"
    by (simp add: requestConsensus_def Let_def inTime_def handler_def agent_sample_defs)
  have n2: "\<not> int (length (filter cr_agree (res_responses (fst (requestConsensus netTwo (ce_wait ?silent)
          (consensusRequestFor (agentCfg True) ?silent ?hr) (ac_consensusTimeout (agentCfg True)))))))
        + 1 \<ge> ac_consensusThreshold (agentCfg True)"
    by (simp add: requestConsensus_def Let_def inTime_def handler_def agent_sample_defs)
  from handleHealthResult_quorum_rule [OF u, of "agentCfg True" ?agent netTwo ?busy] p t1 n1
  have a: "posts (snd (handleHealthResult (agentCfg True) ?agent ?busy ?hr)) = [?payload]"
    by (simp add: f)
  from handleHealthResult_quorum_rule [OF u, of "agentCfg True" ?agent netTwo ?silent] p t2 n2
  have b: "posts (snd (handleHealthResult (agentCfg True) ?agent ?silent ?hr)) = []"
    by simp
  from handleHealthResult_quorum_rule [OF u, of "agentCfg False" "startedAgent None" netTwo ?silent] p
  have c: "posts (snd (handleHealthResult (agentCfg False) (startedAgent None) ?silent ?hr)) =
      [?payload]"
    by (simp add: f)
  let ?left = "cycleOf UNHEALTHY waitLeft True"
  have t3: "res_totalPeers (fst (requestConsensus netTwo (ce_wait ?left)
          (consensusRequestFor (agentCfg True) ?left ?hr) (ac_consensusTimeout (agentCfg True)))) = 0"
    by (simp add: requestConsensus_def Let_def agent_sample_defs)
  from handleHealthResult_quorum_rule [OF u, of "agentCfg True" ?agent netTwo ?left] p t3
  have d: "posts (snd (handleHealthResult (agentCfg True) ?agent ?left ?hr)) = [?payload]"
    by (simp add: f)
  from a b c d show ?thesis by blast
qed

text \<open>
  C3 as first stated fails when the peers leave during the wait. Agent \<open>a1\<close> has P2P
  enabled and two connected peers when it asks; one of them answers that it disagrees and
  none agrees, so the number of agreeing responses plus one is 1, below the threshold 2.
  Both peers have closed their sockets when the wait ends, \<open>totalPeers\<close> is read as 0, and
  the UNHEALTHY report is posted.
\<close>

theorem peers_left_report_counterexample:
  "ac_p2pEnabled (agentCfg True)
   \<and> sa_peerNetwork (startedAgent (Some netTwo)) = Some netTwo
   \<and> length (pn_peers netTwo) = 2
   \<and> hc_status (probeResult UNHEALTHY) = UNHEALTHY
   \<and> res_agreeCount (fst (requestConsensus netTwo (ce_wait (cycleOf UNHEALTHY waitLeft True))
        (consensusRequestFor (agentCfg True) (cycleOf UNHEALTHY waitLeft True) (probeResult UNHEALTHY))
        (ac_consensusTimeout (agentCfg True)))) + 1 = 1
   \<and> ac_consensusThreshold (agentCfg True) = 2
   \<and> posts (snd (handleHealthResult (agentCfg True) (startedAgent (Some netTwo))
        (cycleOf UNHEALTHY waitLeft True) (probeResult UNHEALTHY))) =
      [\<lparr> rp_agentId = ''a1'', rp_validatorId = ''v1'', rp_status = UNHEALTHY,
          rp_message = ''Validator is unhealthy'', rp_agentApiKey = ''k1'' \<rparr>]"
  by (simp add: handleHealthResult_def confirmUnhealthyWithPeers_def sendHealthReport_def
      reportPayloadFor_def statusLower_def requestConsensus_def consensusRequestFor_def
      broadcastRequest_def inTime_def handler_def startedAgent_def Let_def
      agent_sample_defs)

subsection \<open>Webhook signature\<close>

lemma map_of_webhookHeaders_signature:
  "map_of (webhookHeaders body signature secret) ''X-Sentinel-Signature'' =
     (case signature of None \<Rightarrow> None | Some sig \<Rightarrow> if sig = [] then None else Some sig)"
  by (simp add: webhookHeaders_def map_add_def split: option.splits)

lemma sendWebhook_requests:
  assumes "rq \<in> set (snd (sendWebhook hmac stringify urlOk net webhook payload))"
  shows "rq = \<lparr> wr_url = wh_url webhook, wr_method = ''POST'',
                wr_headers = webhookHeaders (stringify payload)
                  (generateSignature hmac (stringify payload) (wh_secret webhook)) (wh_secret webhook),
                wr_body = stringify payload \<rparr>"
  using assms
  by (auto simp: sendWebhook_def Let_def split: if_splits http_outcome.splits)

text \<open>
  C9. For every request the dispatcher writes for a webhook whose secret is set (a
  non-empty text), the body is the JSON text of the payload, the header
  \<open>X-Sentinel-Signature\<close> is the hex HMAC-SHA256 of exactly that body under the secret,
  and \<open>validateSignature\<close> accepts the body with that header and secret. The digest is a
  parameter; a hex SHA-256 digest has 64 characters, so it is not empty.
\<close>

theorem webhook_signature_roundtrip:
  assumes "wh_secret webhook = Some k" and "k \<noteq> []"
    and "hmac k (stringify payload) \<noteq> []"
    and "rq \<in> set (snd (sendWebhook hmac stringify urlOk net webhook payload))"
  shows "wr_body rq = stringify payload
       \<and> map_of (wr_headers rq) ''X-Sentinel-Signature'' = Some (hmac k (wr_body rq))
       \<and> validateSignature hmac (wr_body rq) (map_of (wr_headers rq) ''X-Sentinel-Signature'')
           (wh_secret webhook)"
  using assms(1-3) sendWebhook_requests [OF assms(4)]
  by (simp add: map_of_webhookHeaders_signature generateSignature_def validateSignature_def)

text \<open>
  The theorem at the sample webhook, with the stand-in digest and a payload that is
  already text.
\<close>

theorem webhook_signature_roundtrip_witness:
  "snd (sendWebhook digestStub (\<lambda>p. p) (\<lambda>u. True) (\<lambda>r. Reply 200 ''ok'') hookOne ''{}'') =
     [\<lparr> wr_url = ''http://x/hook'', wr_method = ''POST'',
        wr_headers = webhookHeaders ''{}'' (Some (replicate 64 (CHR ''a''))) (Some ''s3cret''),
        wr_body = ''{}'' \<rparr>]
   \<and> map_of (webhookHeaders ''{}'' (Some (replicate 64 (CHR ''a''))) (Some ''s3cret''))
        ''X-Sentinel-Signature'' = Some (digestStub ''s3cret'' ''{}'')
   \<and> validateSignature digestStub ''{}''
        (map_of (webhookHeaders ''{}'' (Some (replicate 64 (CHR ''a''))) (Some ''s3cret''))
           ''X-Sentinel-Signature'') (Some ''s3cret'')"
proof -
  let ?rq = "\<lparr> wr_url = ''http://x/hook'', wr_method = ''POST'',
        wr_headers = webhookHeaders ''{}'' (Some (replicate 64 (CHR ''a''))) (Some ''s3cret''),
        wr_body = ''{}'' \<rparr>"
  have s: "snd (sendWebhook digestStub (\<lambda>p. p) (\<lambda>u. True) (\<lambda>r. Reply 200 ''ok'') hookOne ''{}'') = [?rq]"
    by (simp add: sendWebhook_def Let_def hookOne_def generateSignature_def digestStub_def)
  have h: "wh_secret hookOne = Some ''s3cret''" "''s3cret'' \<noteq> []"
    "digestStub ''s3cret'' ((\<lambda>p. p) ''{}'') \<noteq> []"
    by (simp_all add: hookOne_def digestStub_def)
  have m: "?rq \<in> set (snd (sendWebhook digestStub (\<lambda>p. p) (\<lambda>u. True) (\<lambda>r. Reply 200 ''ok'') hookOne ''{}''))"
    unfolding s by simp
  from webhook_signature_roundtrip [OF h m] have
    "map_of (wr_headers ?rq) ''X-Sentinel-Signature'' = Some (digestStub ''s3cret'' (wr_body ?rq))"
    "validateSignature digestStub (wr_body ?rq) (map_of (wr_headers ?rq) ''X-Sentinel-Signature'')
       (wh_secret hookOne)"
    by blast+
  then have "map_of (webhookHeaders ''{}'' (Some (replicate 64 (CHR ''a''))) (Some ''s3cret''))
        ''X-Sentinel-Signature'' = Some (digestStub ''s3cret'' ''{}'')"
    "validateSignature digestStub ''{}''
        (map_of (webhookHeaders ''{}'' (Some (replicate 64 (CHR ''a''))) (Some ''s3cret''))
           ''X-Sentinel-Signature'') (Some ''s3cret'')"
    unfolding h(1) by simp_all
  with s show ?thesis by blast
qed

end
